theory Spec2Isabelle
  imports Main "HOL-Library.Word"
begin

section \<open>The beacon chain coordinator (chain.ts)\<close>

text \<open>
  The class \<open>BeaconChain\<close> of \<open>packages/lodestar/src/chain/chain.ts\<close> is embedded
  with explicit state passing: the fields of the object that its methods read and write
  form the record \<open>BeaconChain\<close>, a method takes the record and returns its outcome
  together with the record after the call. A thrown \<open>Error\<close> is the left injection
  of the outcome; the record returned beside it is the state the throw leaves behind.
  What happens while \<open>waitForState\<close> waits is given as a schedule: the \<open>block\<close>
  events of the eth1 follower and the resumptions of the calls of \<open>checkGenesis\<close>
  in flight, in the order they take place.
\<close>

subsection \<open>Consensus types\<close>

type_synonym bytes = "8 word list"
type_synonym Root = bytes
type_synonym Slot = nat
type_synonym Epoch = nat
type_synonym ForkDigest = bytes

record Fork =
  previousVersion :: bytes
  currentVersion :: bytes
  forkEpoch :: Epoch

text \<open>The fields of \<open>BeaconState\<close> that the coordinator reads.\<close>

record BeaconState =
  genesisTime :: nat
  genesisValidatorsRoot :: Root
  fork :: Fork
  validators :: "bytes list"
  eth1DepositIndex :: nat

text \<open>The block body is opaque to the coordinator; it is kept in serialised form.\<close>

record BeaconBlock =
  slot :: Slot
  proposerIndex :: nat
  parentRoot :: Root
  stateRoot :: Root
  body :: bytes

record SignedBeaconBlock =
  message :: BeaconBlock
  signature :: bytes

record DepositData =
  pubkey :: bytes
  withdrawalCredentials :: bytes
  amount :: nat
  depositSignature :: bytes

text \<open>A deposit as \<open>checkGenesis\<close> builds it: \<open>{proof, data}\<close>.\<close>

record Deposit =
  depositProof :: "Root list"
  depositData :: DepositData

record Checkpoint =
  root :: Root
  epoch :: Epoch

text \<open>The argument of \<open>forkChoice.addBlock\<close>.\<close>

record BlockSummary =
  nodeSlot :: Slot
  blockRootBuf :: Root
  stateRootBuf :: Root
  parentRootBuf :: Root
  justifiedCheckpoint :: Checkpoint
  finalizedCheckpoint :: Checkpoint

text \<open>The eth1 block of \<open>ethers/providers\<close>: \<open>{hash, number, timestamp}\<close>.\<close>

record Eth1Block =
  hash :: string
  number :: nat
  timestamp :: nat

subsection \<open>Errors\<close>

datatype db_op =
  StoreChainHead
  | SetJustifiedBlockRoot
  | SetFinalizedBlockRoot
  | SetJustifiedStateRoot
  | SetFinalizedStateRoot
  | SetDepositDataRootList

datatype error =
  Error string
  | TypeError
  | StorageFault db_op

text \<open>The error that \<open>initializeBeaconChain\<close> throws on a stored genesis block with
  another state root.\<close>

definition GenesisMismatch :: error where
  "GenesisMismatch =
     Error ''A genesis state with different configuration was detected! Please clean the database.''"

subsection \<open>Constants\<close>

text \<open>Modelled from the spec: \<open>GENESIS_SLOT\<close> of \<open>../constants\<close>, which is not among
  the sources: the genesis slot is 0.\<close>

definition GENESIS_SLOT :: Slot where
  "GENESIS_SLOT = 0"

text \<open>Modelled from the spec: the root of the genesis parent, the all-zero 32-byte
  value.\<close>

definition ZERO_HASH :: Root where
  "ZERO_HASH = replicate 32 0"

subsection \<open>Storage\<close>

text \<open>
  Modelled from the spec: the storage behind \<open>IBeaconDb\<close> (\<open>../db\<close> is not among the
  sources), with the namespaces of the storage contract: blocks and states keyed by
  root, the canonical root per slot, the four checkpoint roots, the chain-head pointer
  and the deposit-root lists by deposit index. Operations are fail-loud: \<open>refused\<close>
  tells which writes the backend rejects; a rejected write raises \<open>StorageFault\<close> and
  commits nothing, an accepted write commits all of its records.
\<close>

record BeaconDb =
  block :: "Root \<rightharpoonup> SignedBeaconBlock"
  state :: "Root \<rightharpoonup> BeaconState"
  blockBySlot :: "Slot \<rightharpoonup> Root"
  justifiedBlockRoot :: "Root option"
  finalizedBlockRoot :: "Root option"
  justifiedStateRoot :: "Root option"
  finalizedStateRoot :: "Root option"
  chainHead :: "Root option"
  depositDataRootList :: "nat \<rightharpoonup> Root list"
  refused :: "db_op \<Rightarrow> bool"

text \<open>Modelled from the spec: a fail-loud write; it commits \<open>f\<close> as a whole or
  nothing.\<close>

definition db_write :: "db_op \<Rightarrow> (BeaconDb \<Rightarrow> BeaconDb) \<Rightarrow> BeaconDb \<Rightarrow> error + BeaconDb" where
  "db_write w f d = (if refused d w then Inl (StorageFault w) else Inr (f d))"

text \<open>Modelled from the spec: \<open>db.block.getBlockBySlot\<close>, the block stored under the
  canonical root of the slot, or \<open>null\<close>.\<close>

definition getBlockBySlot :: "BeaconDb \<Rightarrow> Slot \<Rightarrow> SignedBeaconBlock option" where
  "getBlockBySlot d s = (case blockBySlot d s of None \<Rightarrow> None | Some r \<Rightarrow> block d r)"

text \<open>Modelled from the spec: \<open>store_chain_head(block, state)\<close>, atomic across the
  triple block, state, chain head; the keys are the hash-tree-roots, computed by the
  two functions given.\<close>

definition storeChainHead ::
  "(BeaconBlock \<Rightarrow> Root) \<Rightarrow> (BeaconState \<Rightarrow> Root)
     \<Rightarrow> SignedBeaconBlock \<Rightarrow> BeaconState \<Rightarrow> BeaconDb \<Rightarrow> error + BeaconDb" where
  "storeChainHead blockHash stateHash b s =
     db_write StoreChainHead (\<lambda>d.
       d\<lparr>block := (block d)(blockHash (message b) \<mapsto> b),
         state := (state d)(stateHash s \<mapsto> s),
         chainHead := Some (blockHash (message b))\<rparr>)"

text \<open>Modelled from the spec: the writes of the four checkpoint roots and of a
  deposit-root list, each a single record.\<close>

definition setJustifiedBlockRoot :: "Root \<Rightarrow> BeaconDb \<Rightarrow> error + BeaconDb" where
  "setJustifiedBlockRoot r = db_write SetJustifiedBlockRoot (\<lambda>d. d\<lparr>justifiedBlockRoot := Some r\<rparr>)"

definition setFinalizedBlockRoot :: "Root \<Rightarrow> BeaconDb \<Rightarrow> error + BeaconDb" where
  "setFinalizedBlockRoot r = db_write SetFinalizedBlockRoot (\<lambda>d. d\<lparr>finalizedBlockRoot := Some r\<rparr>)"

definition setJustifiedStateRoot :: "Root \<Rightarrow> BeaconDb \<Rightarrow> error + BeaconDb" where
  "setJustifiedStateRoot r = db_write SetJustifiedStateRoot (\<lambda>d. d\<lparr>justifiedStateRoot := Some r\<rparr>)"

definition setFinalizedStateRoot :: "Root \<Rightarrow> BeaconDb \<Rightarrow> error + BeaconDb" where
  "setFinalizedStateRoot r = db_write SetFinalizedStateRoot (\<lambda>d. d\<lparr>finalizedStateRoot := Some r\<rparr>)"

definition depositDataRootList_set :: "nat \<Rightarrow> Root list \<Rightarrow> BeaconDb \<Rightarrow> error + BeaconDb" where
  "depositDataRootList_set i l =
     db_write SetDepositDataRootList (\<lambda>d. d\<lparr>depositDataRootList := (depositDataRootList d)(i \<mapsto> l)\<rparr>)"

text \<open>
  \<open>Promise.all\<close> over writes: every write of the array is issued, whatever happens to
  the others; the combined promise rejects with the error of the first write that
  fails, and the writes that succeed stay committed.
\<close>

fun promise_all :: "('s \<Rightarrow> error + 's) list \<Rightarrow> 's \<Rightarrow> error option \<times> 's" where
  "promise_all [] s = (None, s)"
| "promise_all (w # ws) s =
     (case w s of
        Inr s' \<Rightarrow> promise_all ws s'
      | Inl e \<Rightarrow> (Some e, snd (promise_all ws s)))"

subsection \<open>Fork choice\<close>

text \<open>
  Modelled from the spec: the state of the fork choice behind \<open>ILMDGHOST\<close>
  (\<open>./forkChoice\<close> is not among the sources): the nodes, keyed by block root and kept
  in the order they were inserted, the justified and the finalized checkpoint, and the
  genesis time it was started with. \<open>add_block\<close> requires the parent to be present or
  the all-zero root, inserts the node under its block root and advances a checkpoint
  when the node carries one of a strictly greater epoch. \<open>start\<close> marks the instance
  live and is a no-op afterwards. The head is computed by the interface operation
  \<open>headStateRoot\<close>, a parameter of the methods that read it.
\<close>

record ForkChoice =
  nodes :: "BlockSummary list"
  justified :: "Checkpoint option"
  finalized :: "Checkpoint option"
  startedAt :: "nat option"

text \<open>Modelled from the spec: the node stored under a block root.\<close>

definition getNode :: "ForkChoice \<Rightarrow> Root \<Rightarrow> BlockSummary option" where
  "getNode fc r = find (\<lambda>n. blockRootBuf n = r) (nodes fc)"

text \<open>Modelled from the spec: a checkpoint advances to one of a strictly greater
  epoch.\<close>

definition advance :: "Checkpoint option \<Rightarrow> Checkpoint \<Rightarrow> Checkpoint option" where
  "advance cur new =
     (case cur of
        None \<Rightarrow> Some new
      | Some old \<Rightarrow> if epoch old < epoch new then Some new else Some old)"

text \<open>Modelled from the spec: \<open>add_block(node)\<close>.\<close>

definition addBlock :: "BlockSummary \<Rightarrow> ForkChoice \<Rightarrow> error + ForkChoice" where
  "addBlock n fc =
     (if parentRootBuf n \<noteq> ZERO_HASH \<and> getNode fc (parentRootBuf n) = None
      then Inl (Error ''unknown parent'')
      else Inr (fc\<lparr>nodes := filter (\<lambda>m. blockRootBuf m \<noteq> blockRootBuf n) (nodes fc) @ [n],
                   justified := advance (justified fc) (justifiedCheckpoint n),
                   finalized := advance (finalized fc) (finalizedCheckpoint n)\<rparr>))"

text \<open>Modelled from the spec: \<open>start(genesis_time)\<close>.\<close>

definition forkChoice_start :: "nat \<Rightarrow> ForkChoice \<Rightarrow> ForkChoice" where
  "forkChoice_start t fc = (case startedAt fc of None \<Rightarrow> fc\<lparr>startedAt := Some t\<rparr> | Some _ \<Rightarrow> fc)"

subsection \<open>The eth1 follower\<close>

text \<open>
  Modelled from the spec: the state of the eth1 follower behind \<open>IEth1Notifier\<close>
  (\<open>../eth1\<close> is not among the sources): the listeners of its \<open>block\<close> event in the
  order they were added, the deposits it has seen, each with the number of the eth1
  block that holds it, in order, and the state its block cache was initialised with.
  \<open>process_past_deposits(from?, to)\<close> returns the deposit datas of the blocks from
  \<open>from\<close> (when given) up to \<open>to\<close>. A listener is identified by a number, as a
  function object is by its identity; \<open>removeListener\<close> removes the most recently
  added instance, as the event emitter of Node.js does.
\<close>

type_synonym listener = nat

record Eth1Notifier =
  blockListeners :: "listener list"
  pastDeposits :: "(nat \<times> DepositData) list"
  blockCache :: "BeaconState option"

text \<open>Modelled from the spec: \<open>process_past_deposits(from?, to_block_number)\<close>.\<close>

definition processPastDeposits :: "Eth1Notifier \<Rightarrow> nat option \<Rightarrow> nat \<Rightarrow> DepositData list" where
  "processPastDeposits e from to =
     map snd (filter (\<lambda>(n, d). (case from of None \<Rightarrow> True | Some f \<Rightarrow> f \<le> n) \<and> n \<le> to)
                     (pastDeposits e))"

text \<open>Modelled from the spec: \<open>on("block", handler)\<close>, \<open>remove_listener\<close> and
  \<open>init_block_cache(config, state)\<close>.\<close>

definition on_block :: "listener \<Rightarrow> Eth1Notifier \<Rightarrow> Eth1Notifier" where
  "on_block l e = e\<lparr>blockListeners := blockListeners e @ [l]\<rparr>"

definition removeListener :: "listener \<Rightarrow> Eth1Notifier \<Rightarrow> Eth1Notifier" where
  "removeListener l e = e\<lparr>blockListeners := rev (remove1 l (rev (blockListeners e)))\<rparr>"

definition initBlockCache :: "BeaconState option \<Rightarrow> Eth1Notifier \<Rightarrow> Eth1Notifier" where
  "initBlockCache s e = e\<lparr>blockCache := s\<rparr>"

subsection \<open>Imported functions\<close>

text \<open>
  What \<open>chain.ts\<close> imports and only calls: the hash-tree-roots of \<open>config.types\<close>, the
  preset constant, the SSZ list operations, \<open>fromHexString\<close>, the genesis functions,
  \<open>computeForkDigest\<close>, the constant \<open>EMPTY_SIGNATURE\<close>, the body of the empty block,
  and the interface operations \<open>db.state.getLatest\<close> (which returns a state, or
  \<open>null\<close>, or throws) and \<open>forkChoice.headStateRoot\<close>. They are parameters.
  \<open>getSingleProof\<close> takes the leaves the tree holds at the moment of the call.
\<close>

record Imports =
  hashTreeRoot_BeaconState :: "BeaconState \<Rightarrow> Root"
  hashTreeRoot_BeaconBlock :: "BeaconBlock \<Rightarrow> Root"
  hashTreeRoot_DepositData :: "DepositData \<Rightarrow> Root"
  SLOTS_PER_EPOCH :: nat
  EMPTY_SIGNATURE :: bytes
  emptyBlockBody :: bytes
  gindexOfProperty :: "nat \<Rightarrow> nat"
  getSingleProof :: "Root list \<Rightarrow> nat \<Rightarrow> Root list"
  fromHexString :: "string \<Rightarrow> bytes"
  initializeBeaconStateFromEth1 :: "bytes \<Rightarrow> nat \<Rightarrow> Deposit list \<Rightarrow> BeaconState"
  isValidGenesisState :: "BeaconState \<Rightarrow> bool"
  computeForkDigest :: "bytes \<Rightarrow> Root \<Rightarrow> ForkDigest"
  getLatest :: "BeaconDb \<Rightarrow> error + BeaconState option"
  headStateRoot :: "ForkChoice \<Rightarrow> Root"

text \<open>Modelled from the spec: \<open>getEmptyBlock\<close> of \<open>./genesis/genesis\<close>, which is not
  among the sources: the empty block, at the genesis slot 0, with all-zero roots.\<close>

definition getEmptyBlock :: "Imports \<Rightarrow> BeaconBlock" where
  "getEmptyBlock env =
     \<lparr>slot = GENESIS_SLOT, proposerIndex = 0, parentRoot = ZERO_HASH,
      stateRoot = ZERO_HASH, body = emptyBlockBody env\<rparr>"

text \<open>Modelled from the spec: \<open>computeEpochAtSlot\<close> of the state-transition package, which
  is not among the sources: \<open>epoch = slot / SLOTS_PER_EPOCH\<close>.\<close>

definition computeEpochAtSlot :: "Imports \<Rightarrow> Slot \<Rightarrow> Epoch" where
  "computeEpochAtSlot env s = s div SLOTS_PER_EPOCH env"

subsection \<open>The coordinator\<close>

text \<open>Modelled from the spec: the clock (\<open>./clock/local/LocalClock\<close> is not among the
  sources), anchored at a genesis time and started or not.\<close>

record LocalClock =
  anchor :: nat
  ticking :: bool

text \<open>
  The fields of the \<open>BeaconChain\<close> object that its methods use: the collaborators,
  the cached fork digest \<open>_currentForkDigest\<close> and the listener \<open>eth1Listener\<close>,
  both unset on a new object.
\<close>

record BeaconChain =
  db :: BeaconDb
  forkChoice :: ForkChoice
  eth1 :: Eth1Notifier
  clock :: "LocalClock option"
  blockProcessorStarted :: bool
  priv_currentForkDigest :: "ForkDigest option"
  eth1Listener :: "listener option"

definition getHeadState :: "Imports \<Rightarrow> BeaconChain \<Rightarrow> BeaconState option" where
  "getHeadState env c = state (db c) (headStateRoot env (forkChoice c))"

definition currentForkDigest :: "BeaconChain \<Rightarrow> ForkDigest option" where
  "currentForkDigest c = priv_currentForkDigest c"

text \<open>
  \<open>initializeBeaconChain\<close>: the guard on a stored genesis block, the six writes under
  \<open>Promise.all\<close>, then \<open>forkChoice.addBlock\<close>.
\<close>

definition initializeBeaconChain ::
  "Imports \<Rightarrow> BeaconState \<Rightarrow> Root list \<Rightarrow> BeaconChain \<Rightarrow> (error + unit) \<times> BeaconChain" where
  "initializeBeaconChain env genesisState rootList c =
     (let state_root = hashTreeRoot_BeaconState env genesisState;
          genesisBlock = (getEmptyBlock env)\<lparr>stateRoot := state_root\<rparr>;
          block_root = hashTreeRoot_BeaconBlock env genesisBlock;
          storedGenesisBlock = getBlockBySlot (db c) GENESIS_SLOT
      in if (case storedGenesisBlock of
               None \<Rightarrow> False
             | Some stored \<Rightarrow> stateRoot genesisBlock \<noteq> stateRoot (message stored))
         then (Inl GenesisMismatch, c)
         else
           (case promise_all
                   [storeChainHead (hashTreeRoot_BeaconBlock env) (hashTreeRoot_BeaconState env)
                      \<lparr>message = genesisBlock, signature = EMPTY_SIGNATURE env\<rparr> genesisState,
                    setJustifiedBlockRoot block_root,
                    setFinalizedBlockRoot block_root,
                    setJustifiedStateRoot state_root,
                    setFinalizedStateRoot state_root,
                    depositDataRootList_set (eth1DepositIndex genesisState) rootList]
                   (db c) of
              (Some e, d) \<Rightarrow> (Inl e, c\<lparr>db := d\<rparr>)
            | (None, d) \<Rightarrow>
                (let justifiedFinalizedCheckpoint =
                       \<lparr>root = block_root, epoch = computeEpochAtSlot env (slot genesisBlock)\<rparr>
                 in case addBlock
                           \<lparr>nodeSlot = slot genesisBlock,
                            blockRootBuf = block_root,
                            stateRootBuf = state_root,
                            parentRootBuf = replicate 32 0,
                            justifiedCheckpoint = justifiedFinalizedCheckpoint,
                            finalizedCheckpoint = justifiedFinalizedCheckpoint\<rparr>
                           (forkChoice c) of
                      Inl e \<Rightarrow> (Inl e, c\<lparr>db := d\<rparr>)
                    | Inr fc \<Rightarrow> (Inr (), c\<lparr>db := d, forkChoice := fc\<rparr>))))"

definition getCurrentForkDigest :: "Imports \<Rightarrow> BeaconChain \<Rightarrow> error + ForkDigest" where
  "getCurrentForkDigest env c =
     (case getHeadState env c of
        None \<Rightarrow> Inl TypeError
      | Some s \<Rightarrow> Inr (computeForkDigest env (currentVersion (fork s)) (genesisValidatorsRoot s)))"

text \<open>
  The callback of \<open>depositDatas.map\<close> in \<open>checkGenesis\<close>, run over the array: it pushes
  the root of the deposit data onto \<open>depositDataRootList\<close> and takes the proof of the
  leaf at \<open>index\<close> from the tree as it is then. It returns the deposits and the list.
\<close>

fun depositsWithProofs ::
  "Imports \<Rightarrow> Root list \<Rightarrow> nat \<Rightarrow> DepositData list \<Rightarrow> Deposit list \<times> Root list" where
  "depositsWithProofs env rootList index [] = ([], rootList)"
| "depositsWithProofs env rootList index (d # ds) =
     (let pushed = rootList @ [hashTreeRoot_DepositData env d];
          deposit = \<lparr>depositProof = getSingleProof env pushed (gindexOfProperty env index),
                     depositData = d\<rparr>;
          (deposits, final) = depositsWithProofs env pushed (Suc index) ds
      in (deposit # deposits, final))"

text \<open>\<open>checkGenesis\<close> returns the genesis state, or \<open>null\<close> (\<open>None\<close>), or throws.\<close>

definition checkGenesis ::
  "Imports \<Rightarrow> Eth1Block \<Rightarrow> BeaconChain \<Rightarrow> (error + BeaconState option) \<times> BeaconChain" where
  "checkGenesis env eth1Block c =
     (let depositDatas = processPastDeposits (eth1 c) None (number eth1Block);
          (deposits, rootList) = depositsWithProofs env [] 0 depositDatas;
          genesisState =
            initializeBeaconStateFromEth1 env (fromHexString env (hash eth1Block))
              (timestamp eth1Block) deposits
      in if \<not> isValidGenesisState env genesisState then (Inr None, c)
         else
           (case initializeBeaconChain env genesisState rootList c of
              (Inl e, c') \<Rightarrow> (Inl e, c')
            | (Inr _, c') \<Rightarrow> (Inr (Some genesisState), c')))"

text \<open>
  The state that \<open>checkGenesis\<close> computes for an eth1 block, with the deposit-root
  list it has built: the statements of \<open>checkGenesis\<close> up to the test of
  \<open>isValidGenesisState\<close>, which read the eth1 follower only.
\<close>

definition genesisCandidate :: "Imports \<Rightarrow> Eth1Notifier \<Rightarrow> Eth1Block \<Rightarrow> BeaconState \<times> Root list" where
  "genesisCandidate env follower eth1Block =
     (let depositDatas = processPastDeposits follower None (number eth1Block);
          (deposits, rootList) = depositsWithProofs env [] 0 depositDatas
      in (initializeBeaconStateFromEth1 env (fromHexString env (hash eth1Block))
            (timestamp eth1Block) deposits,
          rootList))"

subsection \<open>Checks in flight\<close>

text \<open>
  The listener that \<open>waitForState\<close> installs calls \<open>checkGenesis\<close> and does not await
  it: \<open>this.checkGenesis(eth1Block).then(...)\<close>. A call of \<open>checkGenesis\<close> is suspended
  three times: at \<open>await this.eth1.processPastDeposits\<close>, inside \<open>initializeBeaconChain\<close>
  at \<open>await this.db.block.getBlockBySlot\<close>, and there at \<open>await Promise.all\<close>. While it
  is suspended, further \<open>block\<close> events are delivered and other calls run. A call in
  flight is the point where it is suspended, with the local values it goes on with.
\<close>

datatype check =
  AwaitDeposits Eth1Block
  | AwaitStoredGenesis BeaconState "Root list"
  | AwaitWrites BeaconState "Root list"

datatype outcome =
  Suspended check
  | Returned "BeaconState option"
  | Rejected error

text \<open>
  One call of \<open>checkGenesis\<close> goes on from where it is suspended, up to its next
  \<open>await\<close>, its return or its throw. The awaited operation takes effect in this step:
  the deposits and the stored genesis block are read, and the six writes are committed,
  on the object as it is when the call is resumed.
\<close>

fun resumeCheck :: "Imports \<Rightarrow> check \<Rightarrow> BeaconChain \<Rightarrow> outcome \<times> BeaconChain" where
  "resumeCheck env (AwaitDeposits eth1Block) c =
     (let depositDatas = processPastDeposits (eth1 c) None (number eth1Block);
          (deposits, rootList) = depositsWithProofs env [] 0 depositDatas;
          genesisState =
            initializeBeaconStateFromEth1 env (fromHexString env (hash eth1Block))
              (timestamp eth1Block) deposits
      in if \<not> isValidGenesisState env genesisState then (Returned None, c)
         else (Suspended (AwaitStoredGenesis genesisState rootList), c))"
| "resumeCheck env (AwaitStoredGenesis genesisState rootList) c =
     (let state_root = hashTreeRoot_BeaconState env genesisState;
          genesisBlock = (getEmptyBlock env)\<lparr>stateRoot := state_root\<rparr>;
          storedGenesisBlock = getBlockBySlot (db c) GENESIS_SLOT
      in if (case storedGenesisBlock of
               None \<Rightarrow> False
             | Some stored \<Rightarrow> stateRoot genesisBlock \<noteq> stateRoot (message stored))
         then (Rejected GenesisMismatch, c)
         else (Suspended (AwaitWrites genesisState rootList), c))"
| "resumeCheck env (AwaitWrites genesisState rootList) c =
     (let state_root = hashTreeRoot_BeaconState env genesisState;
          genesisBlock = (getEmptyBlock env)\<lparr>stateRoot := state_root\<rparr>;
          block_root = hashTreeRoot_BeaconBlock env genesisBlock
      in case promise_all
                [storeChainHead (hashTreeRoot_BeaconBlock env) (hashTreeRoot_BeaconState env)
                   \<lparr>message = genesisBlock, signature = EMPTY_SIGNATURE env\<rparr> genesisState,
                 setJustifiedBlockRoot block_root,
                 setFinalizedBlockRoot block_root,
                 setJustifiedStateRoot state_root,
                 setFinalizedStateRoot state_root,
                 depositDataRootList_set (eth1DepositIndex genesisState) rootList]
                (db c) of
           (Some e, d) \<Rightarrow> (Rejected e, c\<lparr>db := d\<rparr>)
         | (None, d) \<Rightarrow>
             (let justifiedFinalizedCheckpoint =
                    \<lparr>root = block_root, epoch = computeEpochAtSlot env (slot genesisBlock)\<rparr>
              in case addBlock
                        \<lparr>nodeSlot = slot genesisBlock,
                         blockRootBuf = block_root,
                         stateRootBuf = state_root,
                         parentRootBuf = replicate 32 0,
                         justifiedCheckpoint = justifiedFinalizedCheckpoint,
                         finalizedCheckpoint = justifiedFinalizedCheckpoint\<rparr>
                        (forkChoice c) of
                   Inl e \<Rightarrow> (Rejected e, c\<lparr>db := d\<rparr>)
                 | Inr fc \<Rightarrow> (Returned (Some genesisState), c\<lparr>db := d, forkChoice := fc\<rparr>)))"

text \<open>
  What the runtime does with a rejected promise that has no handler, as that of a call
  of \<open>checkGenesis\<close> that throws: Node.js before version 15 prints a warning and goes
  on; from version 15 on it raises an uncaught exception and the process exits. The
  option \<open>--unhandled-rejections\<close> selects either.
\<close>

datatype unhandled_rejections = Warn | Throw

text \<open>
  The object together with what is pending on it while \<open>waitForState\<close> waits: the
  calls of \<open>checkGenesis\<close> in flight, oldest first, the value the promise of
  \<open>waitForState\<close> has been resolved with, whether the process has exited, and the
  rejections that met no handler.
\<close>

record Runtime =
  object :: BeaconChain
  inflight :: "check list"
  promise :: "BeaconState option"
  exited :: bool
  unhandled :: "error list"

text \<open>
  What happens while \<open>waitForState\<close> waits: the eth1 follower emits a \<open>block\<close> event,
  or the operation that the call in flight at some position awaits completes.
\<close>

datatype action = Emit Eth1Block | Resume nat

text \<open>
  The emitter calls the listeners in its list. Each call of the listener of this object,
  one for every time it is in the list, starts a check, which is suspended at once;
  the other listeners belong to other subscribers.
\<close>

definition emit :: "Eth1Block \<Rightarrow> Runtime \<Rightarrow> Runtime" where
  "emit eth1Block rt =
     (case eth1Listener (object rt) of
        None \<Rightarrow> rt
      | Some l \<Rightarrow>
          rt\<lparr>inflight := inflight rt
                 @ replicate (count_list (blockListeners (eth1 (object rt))) l)
                     (AwaitDeposits eth1Block)\<rparr>)"

text \<open>
  The call in flight at position \<open>k\<close> goes on. When it returns, the callback of
  \<open>then\<close> runs: a state resolves the promise, unless it is resolved already, and
  \<open>null\<close> does nothing. When it throws, the rejection meets no handler.
\<close>

definition resume :: "Imports \<Rightarrow> unhandled_rejections \<Rightarrow> nat \<Rightarrow> Runtime \<Rightarrow> Runtime" where
  "resume env mode k rt =
     (if length (inflight rt) \<le> k then rt
      else
        (let others = take k (inflight rt) @ drop (Suc k) (inflight rt)
         in case resumeCheck env (inflight rt ! k) (object rt) of
              (Suspended ch, c') \<Rightarrow> rt\<lparr>object := c', inflight := (inflight rt)[k := ch]\<rparr>
            | (Returned None, c') \<Rightarrow> rt\<lparr>object := c', inflight := others\<rparr>
            | (Returned (Some s), c') \<Rightarrow>
                rt\<lparr>object := c', inflight := others,
                   promise := (case promise rt of None \<Rightarrow> Some s | Some first \<Rightarrow> Some first)\<rparr>
            | (Rejected e, c') \<Rightarrow>
                rt\<lparr>object := c', inflight := others,
                   unhandled := unhandled rt @ [e], exited := (mode = Throw)\<rparr>))"

definition perform :: "Imports \<Rightarrow> unhandled_rejections \<Rightarrow> action \<Rightarrow> Runtime \<Rightarrow> Runtime" where
  "perform env mode a rt =
     (if exited rt then rt
      else case a of
             Emit eth1Block \<Rightarrow> emit eth1Block rt
           | Resume k \<Rightarrow> resume env mode k rt)"

text \<open>
  The promise of \<open>waitForState\<close>: what happens is performed in order until the promise
  is resolved; \<open>waitForState\<close> goes on in the microtask that follows the resolution,
  before anything else happens. When the schedule runs out the promise is still
  pending.
\<close>

fun awaitGenesis ::
  "Imports \<Rightarrow> unhandled_rejections \<Rightarrow> action list \<Rightarrow> Runtime \<Rightarrow> Runtime" where
  "awaitGenesis env mode [] rt = rt"
| "awaitGenesis env mode (a # later) rt =
     (case promise rt of
        Some s \<Rightarrow> rt
      | None \<Rightarrow> awaitGenesis env mode later (perform env mode a rt))"

text \<open>
  The schedule in which the check of every block has completed when the next block
  event is delivered: after each event, the check is resumed three times.
\<close>

definition sequential :: "Eth1Block list \<Rightarrow> action list" where
  "sequential blocks = concat (map (\<lambda>eth1Block. [Emit eth1Block, Resume 0, Resume 0, Resume 0]) blocks)"

text \<open>The identity of a new function object: one that no listener in use has.\<close>

definition newListener :: "BeaconChain \<Rightarrow> listener" where
  "newListener c =
     Suc (fold max (blockListeners (eth1 c)) (case eth1Listener c of None \<Rightarrow> 0 | Some l \<Rightarrow> l))"

text \<open>The last statement but one of \<open>waitForState\<close>: the listener, if set, is removed.\<close>

definition removeEth1Listener :: "BeaconChain \<Rightarrow> BeaconChain" where
  "removeEth1Listener c =
     (case eth1Listener c of
        None \<Rightarrow> c
      | Some l \<Rightarrow> c\<lparr>eth1 := removeListener l (eth1 c)\<rparr>)"

text \<open>
  \<open>waitForState\<close>, given what happens while it waits. The outer \<open>None\<close> is a call
  that never returns; \<open>Some None\<close> is the return of \<open>null\<close>. Checks still in flight
  when it returns go on after it and are not part of its result.
\<close>

definition waitForState ::
  "Imports \<Rightarrow> unhandled_rejections \<Rightarrow> action list \<Rightarrow> BeaconChain
     \<Rightarrow> BeaconState option option \<times> BeaconChain" where
  "waitForState env mode schedule c =
     (case getLatest env (db c) of
        Inr s \<Rightarrow> (Some s, removeEth1Listener c)
      | Inl err \<Rightarrow>
          (let l = newListener c;
               listening = c\<lparr>eth1Listener := Some l, eth1 := on_block l (eth1 c)\<rparr>;
               rt = awaitGenesis env mode schedule
                      \<lparr>object = listening, inflight = [], promise = None,
                       exited = False, unhandled = []\<rparr>
           in case promise rt of
                None \<Rightarrow> (None, object rt)
              | Some s \<Rightarrow> (Some (Some s), removeEth1Listener (object rt))))"

text \<open>
  \<open>start\<close>, given what happens while \<open>waitForState\<close> waits: \<open>None\<close> when \<open>waitForState\<close>
  never returns. Reading \<open>genesisTime\<close> of \<open>null\<close> is a \<open>TypeError\<close>.
\<close>

definition start ::
  "Imports \<Rightarrow> unhandled_rejections \<Rightarrow> action list \<Rightarrow> BeaconChain
     \<Rightarrow> (error + unit) option \<times> BeaconChain" where
  "start env mode schedule c =
     (case waitForState env mode schedule c of
        (None, c1) \<Rightarrow> (None, c1)
      | (Some s, c1) \<Rightarrow>
          (let c2 = c1\<lparr>eth1 := initBlockCache s (eth1 c1)\<rparr>
           in case s of
                None \<Rightarrow> (Some (Inl TypeError), c2)
              | Some st \<Rightarrow>
                  (let c3 = c2\<lparr>forkChoice := forkChoice_start (genesisTime st) (forkChoice c2)\<rparr>;
                       c4 = c3\<lparr>clock := Some \<lparr>anchor = genesisTime st, ticking = True\<rparr>\<rparr>;
                       c5 = c4\<lparr>blockProcessorStarted := True\<rparr>
                   in case getCurrentForkDigest env c5 of
                        Inl e \<Rightarrow> (Some (Inl e), c5)
                      | Inr digest \<Rightarrow>
                          (Some (Inr ()), c5\<lparr>priv_currentForkDigest := Some digest\<rparr>))))"

subsection \<open>An example configuration\<close>

text \<open>
  Concrete collaborators on which the theorems below are exercised: hash functions that
  read one field, a stand-in for the hex decoder that takes the character codes, a
  genesis predicate that asks for two validators, a fork choice that follows a chain
  without forks (its head is the node added last), an empty store, and an eth1 chain
  with three deposits in the blocks 5, 8 and 12.
\<close>

definition example_imports :: Imports where
  "example_imports =
     \<lparr>hashTreeRoot_BeaconState =
        (\<lambda>s. of_nat (genesisTime s) # hd (currentVersion (fork s)) # replicate 30 0),
      hashTreeRoot_BeaconBlock = (\<lambda>b. 1 # take 31 (stateRoot b)),
      hashTreeRoot_DepositData = (\<lambda>d. of_nat (amount d) # replicate 31 2),
      SLOTS_PER_EPOCH = 32,
      EMPTY_SIGNATURE = replicate 96 0,
      emptyBlockBody = [],
      gindexOfProperty = (\<lambda>i. 2 ^ 33 + i),
      getSingleProof = (\<lambda>leaves g. [of_nat g] # leaves),
      fromHexString = map (of_nat \<circ> of_char),
      initializeBeaconStateFromEth1 = (\<lambda>h t ds.
        \<lparr>genesisTime = t, genesisValidatorsRoot = h,
         fork = \<lparr>previousVersion = [0, 0, 0, 0], currentVersion = [0, 0, 0, 0], forkEpoch = 0\<rparr>,
         validators = map (pubkey \<circ> depositData) ds, eth1DepositIndex = length ds\<rparr>),
      isValidGenesisState = (\<lambda>s. 2 \<le> length (validators s)),
      computeForkDigest = (\<lambda>v r. take 4 (v @ r)),
      getLatest = (\<lambda>d. Inl (Error ''Latest state not found'')),
      headStateRoot = (\<lambda>fc. case nodes fc of [] \<Rightarrow> ZERO_HASH | _ \<Rightarrow> stateRootBuf (last (nodes fc)))\<rparr>"

definition example_db :: BeaconDb where
  "example_db =
     \<lparr>block = Map.empty, state = Map.empty, blockBySlot = Map.empty,
      justifiedBlockRoot = None, finalizedBlockRoot = None,
      justifiedStateRoot = None, finalizedStateRoot = None,
      chainHead = None, depositDataRootList = Map.empty, refused = (\<lambda>w. False)\<rparr>"

definition example_deposit :: "nat \<Rightarrow> DepositData" where
  "example_deposit k =
     \<lparr>pubkey = [of_nat k], withdrawalCredentials = [], amount = 32 + k, depositSignature = []\<rparr>"

definition example_eth1 :: Eth1Notifier where
  "example_eth1 =
     \<lparr>blockListeners = [],
      pastDeposits = [(5, example_deposit 1), (8, example_deposit 2), (12, example_deposit 3)],
      blockCache = None\<rparr>"

definition example_chain :: BeaconChain where
  "example_chain =
     \<lparr>db = example_db,
      forkChoice = \<lparr>nodes = [], justified = None, finalized = None, startedAt = None\<rparr>,
      eth1 = example_eth1,
      clock = None, blockProcessorStarted = False,
      priv_currentForkDigest = None, eth1Listener = None\<rparr>"

definition example_state :: "nat \<Rightarrow> BeaconState" where
  "example_state t =
     \<lparr>genesisTime = t, genesisValidatorsRoot = replicate 32 9,
      fork = \<lparr>previousVersion = [0, 0, 0, 0], currentVersion = [0, 0, 0, 0], forkEpoch = 0\<rparr>,
      validators = [], eth1DepositIndex = 0\<rparr>"

text \<open>A store that already holds a genesis block, with a state root that starts with
  the byte \<open>k\<close>.\<close>

definition example_stored_genesis :: "8 word \<Rightarrow> SignedBeaconBlock" where
  "example_stored_genesis k =
     \<lparr>message = \<lparr>slot = 0, proposerIndex = 0, parentRoot = ZERO_HASH,
                  stateRoot = k # 0 # replicate 30 0, body = []\<rparr>,
      signature = replicate 96 0\<rparr>"

definition example_db_with_genesis :: "8 word \<Rightarrow> BeaconDb" where
  "example_db_with_genesis k =
     example_db\<lparr>block := [1 # k # 0 # replicate 29 0 \<mapsto> example_stored_genesis k],
                blockBySlot := [0 \<mapsto> 1 # k # 0 # replicate 29 0]\<rparr>"

text \<open>A backend that rejects the write of the finalized state root.\<close>

definition example_chain_refusing :: BeaconChain where
  "example_chain_refusing =
     example_chain\<lparr>db := example_db\<lparr>refused := (\<lambda>w. w = SetFinalizedStateRoot)\<rparr>\<rparr>"

text \<open>
  What the block processor does to the object when it stores a block at slot 1 whose
  post-state is under another fork version: the state is written to the store and the
  node is added to the fork choice.
\<close>

definition example_next_state :: BeaconState where
  "example_next_state =
     \<lparr>genesisTime = 110, genesisValidatorsRoot = [97, 97],
      fork = \<lparr>previousVersion = [0, 0, 0, 0], currentVersion = [1, 0, 0, 0], forkEpoch = 0\<rparr>,
      validators = [ [1], [2] ], eth1DepositIndex = 2\<rparr>"

definition example_head_change :: "BeaconChain \<Rightarrow> BeaconChain" where
  "example_head_change c =
     c\<lparr>db := (db c)\<lparr>state := (state (db c))(110 # 1 # replicate 30 0 \<mapsto> example_next_state)\<rparr>,
       forkChoice :=
         (case addBlock
                 \<lparr>nodeSlot = 1, blockRootBuf = 1 # 110 # 1 # replicate 29 0,
                  stateRootBuf = 110 # 1 # replicate 30 0,
                  parentRootBuf = 1 # 110 # 0 # replicate 29 0,
                  justifiedCheckpoint = \<lparr>root = 1 # 110 # 0 # replicate 29 0, epoch = 0\<rparr>,
                  finalizedCheckpoint = \<lparr>root = 1 # 110 # 0 # replicate 29 0, epoch = 0\<rparr>\<rparr>
                 (forkChoice c) of
            Inl e \<Rightarrow> forkChoice c
          | Inr fc \<Rightarrow> fc)\<rparr>"

definition example_eth1_block :: "nat \<Rightarrow> Eth1Block" where
  "example_eth1_block n = \<lparr>hash = ''aa'', number = n, timestamp = 100 + n\<rparr>"

section \<open>Properties\<close>

subsection \<open>Auxiliary facts\<close>

lemmas example_defs = example_imports_def example_db_def example_deposit_def example_eth1_def
  example_chain_def example_state_def example_eth1_block_def

lemmas write_defs = storeChainHead_def setJustifiedBlockRoot_def setFinalizedBlockRoot_def
  setJustifiedStateRoot_def setFinalizedStateRoot_def depositDataRootList_set_def

lemma promise_all_None_Cons:
  "promise_all (w # ws) s = (None, s') \<longleftrightarrow> (\<exists>s1. w s = Inr s1 \<and> promise_all ws s1 = (None, s'))"
  by (cases "w s") auto

lemma db_write_Inr: "db_write w f d = Inr d' \<longleftrightarrow> \<not> refused d w \<and> d' = f d"
  by (auto simp: db_write_def)

lemma genesis_writes_accepted:
  assumes "promise_all [storeChainHead bh sh sb S, setJustifiedBlockRoot br, setFinalizedBlockRoot br,
     setJustifiedStateRoot sr, setFinalizedStateRoot sr, depositDataRootList_set i rl] d = (None, d')"
  shows "d' = d\<lparr>block := (block d)(bh (message sb) \<mapsto> sb),
                 state := (state d)(sh S \<mapsto> S),
                 justifiedBlockRoot := Some br, finalizedBlockRoot := Some br,
                 justifiedStateRoot := Some sr, finalizedStateRoot := Some sr,
                 chainHead := Some (bh (message sb)),
                 depositDataRootList := (depositDataRootList d)(i \<mapsto> rl)\<rparr>"
  using assms by (auto simp add: promise_all_None_Cons db_write_Inr write_defs simp del: promise_all.simps(2))

lemma find_inserted: "P n \<Longrightarrow> find P (filter (\<lambda>m. \<not> P m) xs @ [n]) = Some n"
  by (induction xs) auto

lemma getNode_addBlock:
  "addBlock n fc = Inr fc' \<Longrightarrow> getNode fc' (blockRootBuf n) = Some n"
  using find_inserted [of "\<lambda>m. blockRootBuf m = blockRootBuf n" n "nodes fc"]
  by (auto simp: addBlock_def getNode_def split: if_splits)

lemma initializeBeaconChain_InrD:
  assumes "initializeBeaconChain env S rl c = (Inr u, c')"
  shows "\<exists>d fc. promise_all
                   [storeChainHead (hashTreeRoot_BeaconBlock env) (hashTreeRoot_BeaconState env)
                      \<lparr>message = (getEmptyBlock env)\<lparr>stateRoot := hashTreeRoot_BeaconState env S\<rparr>, signature = EMPTY_SIGNATURE env\<rparr> S,
                    setJustifiedBlockRoot (hashTreeRoot_BeaconBlock env ((getEmptyBlock env)\<lparr>stateRoot := hashTreeRoot_BeaconState env S\<rparr>)),
                    setFinalizedBlockRoot (hashTreeRoot_BeaconBlock env ((getEmptyBlock env)\<lparr>stateRoot := hashTreeRoot_BeaconState env S\<rparr>)),
                    setJustifiedStateRoot (hashTreeRoot_BeaconState env S),
                    setFinalizedStateRoot (hashTreeRoot_BeaconState env S),
                    depositDataRootList_set (eth1DepositIndex S) rl]
                   (db c) = (None, d) \<and> c' = c\<lparr>db := d, forkChoice := fc\<rparr> \<and>
      addBlock \<lparr>nodeSlot = slot (getEmptyBlock env),
                            blockRootBuf = (hashTreeRoot_BeaconBlock env ((getEmptyBlock env)\<lparr>stateRoot := hashTreeRoot_BeaconState env S\<rparr>)),
                            stateRootBuf = hashTreeRoot_BeaconState env S,
                            parentRootBuf = replicate 32 0,
                            justifiedCheckpoint = \<lparr>root = (hashTreeRoot_BeaconBlock env ((getEmptyBlock env)\<lparr>stateRoot := hashTreeRoot_BeaconState env S\<rparr>)), epoch = computeEpochAtSlot env (slot (getEmptyBlock env))\<rparr>,
                            finalizedCheckpoint = \<lparr>root = (hashTreeRoot_BeaconBlock env ((getEmptyBlock env)\<lparr>stateRoot := hashTreeRoot_BeaconState env S\<rparr>)), epoch = computeEpochAtSlot env (slot (getEmptyBlock env))\<rparr>\<rparr>
                           (forkChoice c) = Inr fc"
  using assms
  by (auto simp add: initializeBeaconChain_def Let_def simp del: promise_all.simps split: if_splits option.splits prod.splits sum.splits)

subsection \<open>Initialising the chain\<close>

lemma initializeBeaconChain_genesis_mismatch_aux:
  assumes "getBlockBySlot (db c) GENESIS_SLOT = Some stored"
    and "stateRoot (message stored) \<noteq> hashTreeRoot_BeaconState env genesisState"
  shows "initializeBeaconChain env genesisState rootList c = (Inl GenesisMismatch, c)"
  using assms by (auto simp add: initializeBeaconChain_def Let_def)

text \<open>
  C2. If the store holds a block at slot 0 whose state root differs from the
  hash-tree-root of the genesis state passed in, \<open>initializeBeaconChain\<close> fails with
  the different-configuration error and writes nothing: the whole object, with every
  namespace of the store and the fork choice, is as it was.
\<close>

theorem initializeBeaconChain_genesis_mismatch:
  assumes "getBlockBySlot (db c) GENESIS_SLOT = Some stored"
    and "stateRoot (message stored) \<noteq> hashTreeRoot_BeaconState env genesisState"
  shows "initializeBeaconChain env genesisState rootList c = (Inl GenesisMismatch, c)"
  using assms by (auto simp add: initializeBeaconChain_def Let_def)

theorem initializeBeaconChain_genesis_mismatch_witness:
  "getBlockBySlot (example_db_with_genesis 187) GENESIS_SLOT = Some (example_stored_genesis 187)
   \<and> stateRoot (message (example_stored_genesis 187)) \<noteq> hashTreeRoot_BeaconState example_imports (example_state 7)
   \<and> initializeBeaconChain example_imports (example_state 7) []
       (example_chain\<lparr>db := (example_db_with_genesis 187)\<rparr>)
     = (Inl GenesisMismatch, example_chain\<lparr>db := (example_db_with_genesis 187)\<rparr>)"
proof -
  have a: "getBlockBySlot (db (example_chain\<lparr>db := (example_db_with_genesis 187)\<rparr>)) GENESIS_SLOT = Some (example_stored_genesis 187)"
    by (simp add: getBlockBySlot_def example_defs example_stored_genesis_def example_db_with_genesis_def GENESIS_SLOT_def)
  have b: "stateRoot (message (example_stored_genesis 187)) \<noteq> hashTreeRoot_BeaconState example_imports (example_state 7)"
    by (simp add: example_defs example_stored_genesis_def example_db_with_genesis_def)
  show ?thesis
    using a b initializeBeaconChain_genesis_mismatch [OF a b, of "[]"] by simp
qed

text \<open>
  C1. Whenever \<open>initializeBeaconChain\<close> returns for a genesis state \<open>S\<close>, the block
  the chain head points to is the empty block, at slot 0 and with the empty signature,
  whose state root is the hash-tree-root of \<open>S\<close>, stored together with \<open>S\<close>; and the
  fork choice holds, under the root of that block, a node with the all-zero parent root
  whose justified and finalized checkpoints are both the root of the genesis block at
  the epoch of the genesis slot, which is 0.
\<close>

theorem initializeBeaconChain_genesis_head:
  assumes "initializeBeaconChain env genesisState rootList c = (Inr u, c')"
  shows "let state_root = hashTreeRoot_BeaconState env genesisState;
             genesisBlock = (getEmptyBlock env)\<lparr>stateRoot := state_root\<rparr>;
             block_root = hashTreeRoot_BeaconBlock env genesisBlock;
             checkpoint = \<lparr>root = block_root, epoch = computeEpochAtSlot env GENESIS_SLOT\<rparr>
         in chainHead (db c') = Some block_root
            \<and> block (db c') block_root = Some \<lparr>message = genesisBlock, signature = EMPTY_SIGNATURE env\<rparr>
            \<and> state (db c') state_root = Some genesisState
            \<and> slot genesisBlock = 0
            \<and> stateRoot genesisBlock = hashTreeRoot_BeaconState env genesisState
            \<and> getNode (forkChoice c') block_root =
                Some \<lparr>nodeSlot = GENESIS_SLOT, blockRootBuf = block_root, stateRootBuf = state_root,
                      parentRootBuf = replicate 32 0,
                      justifiedCheckpoint = checkpoint, finalizedCheckpoint = checkpoint\<rparr>
            \<and> epoch checkpoint = 0"
proof -
  from initializeBeaconChain_InrD [OF assms] obtain d fc where
    w: "promise_all
                   [storeChainHead (hashTreeRoot_BeaconBlock env) (hashTreeRoot_BeaconState env)
                      \<lparr>message = (getEmptyBlock env)\<lparr>stateRoot := hashTreeRoot_BeaconState env genesisState\<rparr>, signature = EMPTY_SIGNATURE env\<rparr> genesisState,
                    setJustifiedBlockRoot (hashTreeRoot_BeaconBlock env ((getEmptyBlock env)\<lparr>stateRoot := hashTreeRoot_BeaconState env genesisState\<rparr>)),
                    setFinalizedBlockRoot (hashTreeRoot_BeaconBlock env ((getEmptyBlock env)\<lparr>stateRoot := hashTreeRoot_BeaconState env genesisState\<rparr>)),
                    setJustifiedStateRoot (hashTreeRoot_BeaconState env genesisState),
                    setFinalizedStateRoot (hashTreeRoot_BeaconState env genesisState),
                    depositDataRootList_set (eth1DepositIndex genesisState) rootList]
                   (db c) = (None, d)"
    and c': "c' = c\<lparr>db := d, forkChoice := fc\<rparr>"
    and a: "addBlock \<lparr>nodeSlot = slot (getEmptyBlock env),
                            blockRootBuf = (hashTreeRoot_BeaconBlock env ((getEmptyBlock env)\<lparr>stateRoot := hashTreeRoot_BeaconState env genesisState\<rparr>)),
                            stateRootBuf = hashTreeRoot_BeaconState env genesisState,
                            parentRootBuf = replicate 32 0,
                            justifiedCheckpoint = \<lparr>root = (hashTreeRoot_BeaconBlock env ((getEmptyBlock env)\<lparr>stateRoot := hashTreeRoot_BeaconState env genesisState\<rparr>)), epoch = computeEpochAtSlot env (slot (getEmptyBlock env))\<rparr>,
                            finalizedCheckpoint = \<lparr>root = (hashTreeRoot_BeaconBlock env ((getEmptyBlock env)\<lparr>stateRoot := hashTreeRoot_BeaconState env genesisState\<rparr>)), epoch = computeEpochAtSlot env (slot (getEmptyBlock env))\<rparr>\<rparr>
                           (forkChoice c) = Inr fc"
    by blast
  note d = genesis_writes_accepted [OF w]
  have s0: "slot (getEmptyBlock env) = GENESIS_SLOT"
    by (simp add: getEmptyBlock_def)
  have e0: "computeEpochAtSlot env GENESIS_SLOT = 0"
    by (simp add: computeEpochAtSlot_def GENESIS_SLOT_def)
  from getNode_addBlock [OF a] show ?thesis
    by (simp add: Let_def c' d s0 e0) (simp add: GENESIS_SLOT_def)
qed

theorem initializeBeaconChain_genesis_head_witness:
  "fst (initializeBeaconChain example_imports (example_state 7) [] example_chain) = Inr ()
   \<and> chainHead (db (snd (initializeBeaconChain example_imports (example_state 7) [] example_chain)))
       = Some (1 # 7 # 0 # replicate 29 0)"
proof -
  have f: "fst (initializeBeaconChain example_imports (example_state 7) [] example_chain) = Inr ()"
    by (simp add: initializeBeaconChain_def Let_def example_defs getBlockBySlot_def write_defs
        db_write_def addBlock_def ZERO_HASH_def)
  then have e: "initializeBeaconChain example_imports (example_state 7) [] example_chain
      = (Inr (), snd (initializeBeaconChain example_imports (example_state 7) [] example_chain))"
    by (simp add: prod_eq_iff)
  have h: "hashTreeRoot_BeaconBlock example_imports
          ((getEmptyBlock example_imports)\<lparr>stateRoot := hashTreeRoot_BeaconState example_imports (example_state 7)\<rparr>)
        = 1 # 7 # 0 # replicate 29 0"
    by (simp add: example_defs getEmptyBlock_def)
  from initializeBeaconChain_genesis_head [OF e] f h show ?thesis
    by (simp add: Let_def)
qed

lemma snd_promise_all_db_write:
  "snd (promise_all (db_write w f # ws) d) = snd (promise_all ws (if refused d w then d else f d))"
  by (simp add: db_write_def)

lemma fst_promise_all_db_write:
  "fst (promise_all (db_write w f # ws) d)
     = (if refused d w then Some (StorageFault w) else fst (promise_all ws (f d)))"
  by (simp add: db_write_def)

lemma six_chainHead:
  "chainHead (snd (promise_all [storeChainHead bh sh sb S, setJustifiedBlockRoot br, setFinalizedBlockRoot br,
     setJustifiedStateRoot sr, setFinalizedStateRoot sr, depositDataRootList_set i rl] d))
   = (if refused d StoreChainHead then chainHead d else Some (bh (message sb)))"
  by (simp add: write_defs snd_promise_all_db_write del: promise_all.simps(2))

lemma six_fst:
  "fst (promise_all [storeChainHead bh sh sb S, setJustifiedBlockRoot br, setFinalizedBlockRoot br,
     setJustifiedStateRoot sr, setFinalizedStateRoot sr, depositDataRootList_set i rl] d) = None
   \<longleftrightarrow> (\<forall>w. \<not> refused d w)"
proof -
  have "(\<forall>w. \<not> refused d w) \<longleftrightarrow> (\<not> refused d StoreChainHead \<and> \<not> refused d SetJustifiedBlockRoot
      \<and> \<not> refused d SetFinalizedBlockRoot \<and> \<not> refused d SetJustifiedStateRoot
      \<and> \<not> refused d SetFinalizedStateRoot \<and> \<not> refused d SetDepositDataRootList)"
    by (metis db_op.exhaust)
  then show ?thesis
    by (simp add: write_defs fst_promise_all_db_write del: promise_all.simps(2))
qed

lemma genesis_writes_fields:
  fixes d bh sh sb S br sr i rl
  defines "d' \<equiv> snd (promise_all [storeChainHead bh sh sb S, setJustifiedBlockRoot br,
     setFinalizedBlockRoot br, setJustifiedStateRoot sr, setFinalizedStateRoot sr,
     depositDataRootList_set i rl] d)"
  shows "block d' = (if refused d StoreChainHead then block d else (block d)(bh (message sb) \<mapsto> sb))"
    and "state d' = (if refused d StoreChainHead then state d else (state d)(sh S \<mapsto> S))"
    and "justifiedBlockRoot d' = (if refused d SetJustifiedBlockRoot then justifiedBlockRoot d else Some br)"
    and "finalizedBlockRoot d' = (if refused d SetFinalizedBlockRoot then finalizedBlockRoot d else Some br)"
    and "justifiedStateRoot d' = (if refused d SetJustifiedStateRoot then justifiedStateRoot d else Some sr)"
    and "finalizedStateRoot d' = (if refused d SetFinalizedStateRoot then finalizedStateRoot d else Some sr)"
    and "depositDataRootList d' = (if refused d SetDepositDataRootList then depositDataRootList d
           else (depositDataRootList d)(i \<mapsto> rl))"
    and "blockBySlot d' = blockBySlot d"
    and "refused d' = refused d"
  unfolding d'_def
  by (simp_all add: write_defs snd_promise_all_db_write del: promise_all.simps(2))

lemma genesis_writes_refused:
  assumes "refused d w0"
  shows "\<exists>w. refused d w \<and> fst (promise_all [storeChainHead bh sh sb S, setJustifiedBlockRoot br,
     setFinalizedBlockRoot br, setJustifiedStateRoot sr, setFinalizedStateRoot sr,
     depositDataRootList_set i rl] d) = Some (StorageFault w)"
  using assms
  by (cases w0) (auto simp add: write_defs fst_promise_all_db_write simp del: promise_all.simps(2))

lemma addBlock_genesis:
  "addBlock \<lparr>nodeSlot = s, blockRootBuf = br, stateRootBuf = sr, parentRootBuf = replicate 32 0,
     justifiedCheckpoint = j, finalizedCheckpoint = f\<rparr> fc \<noteq> Inl e"
  by (simp add: addBlock_def ZERO_HASH_def)

lemma initializeBeaconChain_no_mismatch:
  assumes "\<forall>stored. getBlockBySlot (db c) GENESIS_SLOT = Some stored
             \<longrightarrow> stateRoot (message stored) = hashTreeRoot_BeaconState env S"
  shows "\<exists>e d. promise_all
                   [storeChainHead (hashTreeRoot_BeaconBlock env) (hashTreeRoot_BeaconState env)
                      \<lparr>message = (getEmptyBlock env)\<lparr>stateRoot := hashTreeRoot_BeaconState env S\<rparr>, signature = EMPTY_SIGNATURE env\<rparr> S,
                    setJustifiedBlockRoot (hashTreeRoot_BeaconBlock env ((getEmptyBlock env)\<lparr>stateRoot := hashTreeRoot_BeaconState env S\<rparr>)),
                    setFinalizedBlockRoot (hashTreeRoot_BeaconBlock env ((getEmptyBlock env)\<lparr>stateRoot := hashTreeRoot_BeaconState env S\<rparr>)),
                    setJustifiedStateRoot (hashTreeRoot_BeaconState env S),
                    setFinalizedStateRoot (hashTreeRoot_BeaconState env S),
                    depositDataRootList_set (eth1DepositIndex S) rl]
                   (db c) = (e, d)
           \<and> db (snd (initializeBeaconChain env S rl c)) = d
           \<and> (case e of
                 Some x \<Rightarrow> initializeBeaconChain env S rl c = (Inl x, c\<lparr>db := d\<rparr>)
               | None \<Rightarrow> (\<exists>fc. initializeBeaconChain env S rl c = (Inr (), c\<lparr>db := d, forkChoice := fc\<rparr>)))"
  using assms
  by (auto simp add: initializeBeaconChain_def Let_def addBlock_genesis simp del: promise_all.simps
      split: option.splits prod.splits sum.splits)

text \<open>
  C3, as stated, fails: with a backend that rejects the write of the finalized state
  root and no genesis block stored, the call fails, and afterwards the chain head and
  the justified state root are committed while the finalized state root is not.
\<close>

theorem initializeBeaconChain_partial_writes:
  "getBlockBySlot (db example_chain_refusing) GENESIS_SLOT = None
   \<and> fst (initializeBeaconChain example_imports (example_state 7) [] example_chain_refusing)
       = Inl (StorageFault SetFinalizedStateRoot)
   \<and> chainHead (db (snd (initializeBeaconChain example_imports (example_state 7) []
         example_chain_refusing))) = Some (1 # 7 # 0 # replicate 29 0)
   \<and> justifiedStateRoot (db (snd (initializeBeaconChain example_imports (example_state 7) []
         example_chain_refusing))) = Some (7 # 0 # replicate 30 0)
   \<and> finalizedStateRoot (db (snd (initializeBeaconChain example_imports (example_state 7) []
         example_chain_refusing))) = None"
  by (simp add: initializeBeaconChain_def Let_def example_defs example_chain_refusing_def getBlockBySlot_def write_defs
      db_write_def getEmptyBlock_def GENESIS_SLOT_def)

text \<open>
  C3, amended. When no mismatching genesis block is stored, \<open>initializeBeaconChain\<close>
  issues the six writes independently of each other: the records of a write that the
  store accepts are committed, those of a write it rejects are left as they were. If
  all six are accepted, the call returns and the genesis node is in the fork choice; if
  one is rejected, the call fails with the storage error of a rejected write and the
  fork choice is unchanged.
\<close>

theorem initializeBeaconChain_writes:
  assumes nm: "\<forall>stored. getBlockBySlot (db c) GENESIS_SLOT = Some stored
             \<longrightarrow> stateRoot (message stored) = hashTreeRoot_BeaconState env S"
  shows "let d = db c;
             r = initializeBeaconChain env S rl c;
             d' = db (snd r);
             state_root = hashTreeRoot_BeaconState env S;
             genesisBlock = (getEmptyBlock env)\<lparr>stateRoot := state_root\<rparr>;
             block_root = hashTreeRoot_BeaconBlock env genesisBlock;
             checkpoint = \<lparr>root = block_root, epoch = computeEpochAtSlot env GENESIS_SLOT\<rparr>
         in block d' = (if refused d StoreChainHead then block d
                        else (block d)(block_root \<mapsto>
                               \<lparr>message = genesisBlock, signature = EMPTY_SIGNATURE env\<rparr>))
          \<and> state d' = (if refused d StoreChainHead then state d else (state d)(state_root \<mapsto> S))
          \<and> chainHead d' = (if refused d StoreChainHead then chainHead d else Some block_root)
          \<and> justifiedBlockRoot d' =
              (if refused d SetJustifiedBlockRoot then justifiedBlockRoot d else Some block_root)
          \<and> finalizedBlockRoot d' =
              (if refused d SetFinalizedBlockRoot then finalizedBlockRoot d else Some block_root)
          \<and> justifiedStateRoot d' =
              (if refused d SetJustifiedStateRoot then justifiedStateRoot d else Some state_root)
          \<and> finalizedStateRoot d' =
              (if refused d SetFinalizedStateRoot then finalizedStateRoot d else Some state_root)
          \<and> depositDataRootList d' =
              (if refused d SetDepositDataRootList then depositDataRootList d
               else (depositDataRootList d)(eth1DepositIndex S \<mapsto> rl))
          \<and> ((\<forall>w. \<not> refused d w) \<longrightarrow>
                fst r = Inr ()
                \<and> getNode (forkChoice (snd r)) block_root =
                    Some \<lparr>nodeSlot = GENESIS_SLOT, blockRootBuf = block_root,
                          stateRootBuf = state_root, parentRootBuf = replicate 32 0,
                          justifiedCheckpoint = checkpoint, finalizedCheckpoint = checkpoint\<rparr>)
          \<and> ((\<exists>w. refused d w) \<longrightarrow>
                (\<exists>w. refused d w \<and> fst r = Inl (StorageFault w))
                \<and> forkChoice (snd r) = forkChoice c)"
proof -
  let ?sr = "hashTreeRoot_BeaconState env S"
  let ?gb = "(getEmptyBlock env)\<lparr>stateRoot := ?sr\<rparr>"
  let ?br = "hashTreeRoot_BeaconBlock env ?gb"
  let ?six = "[storeChainHead (hashTreeRoot_BeaconBlock env) (hashTreeRoot_BeaconState env)
                 \<lparr>message = ?gb, signature = EMPTY_SIGNATURE env\<rparr> S,
               setJustifiedBlockRoot ?br, setFinalizedBlockRoot ?br,
               setJustifiedStateRoot ?sr, setFinalizedStateRoot ?sr,
               depositDataRootList_set (eth1DepositIndex S) rl]"
  let ?r = "initializeBeaconChain env S rl c"
  from initializeBeaconChain_no_mismatch [OF nm, of rl] obtain e d where
    p: "promise_all ?six (db c) = (e, d)"
    and dd: "db (snd ?r) = d"
    and r: "case e of Some x \<Rightarrow> ?r = (Inl x, c\<lparr>db := d\<rparr>)
             | None \<Rightarrow> (\<exists>fc. ?r = (Inr (), c\<lparr>db := d, forkChoice := fc\<rparr>))"
    by blast
  have d: "db (snd ?r) = snd (promise_all ?six (db c))"
    by (simp only: p dd snd_conv)
  have e: "e = fst (promise_all ?six (db c))"
    by (simp only: p fst_conv)
  have fields:
    "block (db (snd ?r)) = (if refused (db c) StoreChainHead then block (db c)
        else (block (db c))(?br \<mapsto> \<lparr>message = ?gb, signature = EMPTY_SIGNATURE env\<rparr>))"
    "state (db (snd ?r)) = (if refused (db c) StoreChainHead then state (db c)
        else (state (db c))(?sr \<mapsto> S))"
    "chainHead (db (snd ?r)) = (if refused (db c) StoreChainHead then chainHead (db c) else Some ?br)"
    "justifiedBlockRoot (db (snd ?r)) =
        (if refused (db c) SetJustifiedBlockRoot then justifiedBlockRoot (db c) else Some ?br)"
    "finalizedBlockRoot (db (snd ?r)) =
        (if refused (db c) SetFinalizedBlockRoot then finalizedBlockRoot (db c) else Some ?br)"
    "justifiedStateRoot (db (snd ?r)) =
        (if refused (db c) SetJustifiedStateRoot then justifiedStateRoot (db c) else Some ?sr)"
    "finalizedStateRoot (db (snd ?r)) =
        (if refused (db c) SetFinalizedStateRoot then finalizedStateRoot (db c) else Some ?sr)"
    "depositDataRootList (db (snd ?r)) =
        (if refused (db c) SetDepositDataRootList then depositDataRootList (db c)
         else (depositDataRootList (db c))(eth1DepositIndex S \<mapsto> rl))"
    unfolding d
    by (simp_all only: genesis_writes_fields six_chainHead SignedBeaconBlock.simps)
  have ok: "fst ?r = Inr ()
      \<and> getNode (forkChoice (snd ?r)) ?br =
          Some \<lparr>nodeSlot = GENESIS_SLOT, blockRootBuf = ?br, stateRootBuf = ?sr,
                parentRootBuf = replicate 32 0,
                justifiedCheckpoint = \<lparr>root = ?br, epoch = computeEpochAtSlot env GENESIS_SLOT\<rparr>,
                finalizedCheckpoint = \<lparr>root = ?br, epoch = computeEpochAtSlot env GENESIS_SLOT\<rparr>\<rparr>"
    if all: "\<forall>w. \<not> refused (db c) w"
  proof -
    have "e = None"
      unfolding e by (rule six_fst [THEN iffD2, OF all])
    with r obtain fc where rr: "?r = (Inr (), c\<lparr>db := d, forkChoice := fc\<rparr>)"
      by auto
    from initializeBeaconChain_InrD [OF rr] obtain fc' where
      "c\<lparr>db := d, forkChoice := fc\<rparr> = c\<lparr>db := d, forkChoice := fc'\<rparr>"
      and a: "addBlock \<lparr>nodeSlot = slot (getEmptyBlock env), blockRootBuf = ?br,
                 stateRootBuf = ?sr, parentRootBuf = replicate 32 0,
                 justifiedCheckpoint = \<lparr>root = ?br, epoch = computeEpochAtSlot env (slot (getEmptyBlock env))\<rparr>,
                 finalizedCheckpoint = \<lparr>root = ?br, epoch = computeEpochAtSlot env (slot (getEmptyBlock env))\<rparr>\<rparr>
               (forkChoice c) = Inr fc'"
      by (auto simp add: p simp del: promise_all.simps)
    then have "fc' = fc"
      by (metis BeaconChain.select_convs(2) BeaconChain.surjective BeaconChain.update_convs(2))
    with getNode_addBlock [OF a] rr show ?thesis
      by (simp add: getEmptyBlock_def)
  qed
  have ko: "(\<exists>w. refused (db c) w \<and> fst ?r = Inl (StorageFault w)) \<and> forkChoice (snd ?r) = forkChoice c"
    if some: "\<exists>w. refused (db c) w"
  proof -
    from some obtain w0 where "refused (db c) w0" ..
    from genesis_writes_refused [OF this] obtain w where
      w: "refused (db c) w" and "fst (promise_all ?six (db c)) = Some (StorageFault w)"
      by blast
    then have "e = Some (StorageFault w)"
      by (simp add: e)
    with r have "?r = (Inl (StorageFault w), c\<lparr>db := d\<rparr>)"
      by simp
    with w show ?thesis
      by auto
  qed
  show ?thesis
    unfolding Let_def using fields ok ko by blast
qed

theorem initializeBeaconChain_writes_witness:
  "fst (initializeBeaconChain example_imports (example_state 7) [] example_chain) = Inr ()
   \<and> finalizedStateRoot (db (snd (initializeBeaconChain example_imports (example_state 7) []
         example_chain))) = Some (7 # 0 # replicate 30 0)
   \<and> forkChoice (snd (initializeBeaconChain example_imports (example_state 7) []
         example_chain_refusing)) = forkChoice example_chain_refusing
   \<and> finalizedStateRoot (db (snd (initializeBeaconChain example_imports (example_state 7) []
         example_chain_refusing))) = None
   \<and> justifiedStateRoot (db (snd (initializeBeaconChain example_imports (example_state 7) []
         example_chain_refusing))) = Some (7 # 0 # replicate 30 0)"
proof -
  have nm1: "\<forall>stored. getBlockBySlot (db example_chain) GENESIS_SLOT = Some stored
      \<longrightarrow> stateRoot (message stored) = hashTreeRoot_BeaconState example_imports (example_state 7)"
    by (simp add: getBlockBySlot_def example_defs example_chain_refusing_def)
  have nm2: "\<forall>stored. getBlockBySlot (db example_chain_refusing) GENESIS_SLOT = Some stored
      \<longrightarrow> stateRoot (message stored) = hashTreeRoot_BeaconState example_imports (example_state 7)"
    by (simp add: getBlockBySlot_def example_defs example_chain_refusing_def)
  have a1: "\<forall>w. \<not> refused (db example_chain) w"
    by (simp add: example_defs example_chain_refusing_def)
  have a2: "\<exists>w. refused (db example_chain_refusing) w"
    by (simp add: example_defs example_chain_refusing_def)
  have r: "refused (db example_chain_refusing) SetFinalizedStateRoot"
    "\<not> refused (db example_chain_refusing) SetJustifiedStateRoot"
    "finalizedStateRoot (db example_chain_refusing) = None"
    "hashTreeRoot_BeaconState example_imports (example_state 7) = 7 # 0 # replicate 30 0"
    by (simp_all add: example_defs example_chain_refusing_def)
  from initializeBeaconChain_writes [OF nm1, of "[]"] a1
  have ok: "fst (initializeBeaconChain example_imports (example_state 7) [] example_chain) = Inr ()
     \<and> finalizedStateRoot (db (snd (initializeBeaconChain example_imports (example_state 7) []
         example_chain))) = Some (7 # 0 # replicate 30 0)"
    by (simp add: Let_def r)
  from initializeBeaconChain_writes [OF nm2, of "[]"] a2
  have ko: "forkChoice (snd (initializeBeaconChain example_imports (example_state 7) []
         example_chain_refusing)) = forkChoice example_chain_refusing
   \<and> finalizedStateRoot (db (snd (initializeBeaconChain example_imports (example_state 7) []
         example_chain_refusing))) = None
   \<and> justifiedStateRoot (db (snd (initializeBeaconChain example_imports (example_state 7) []
         example_chain_refusing))) = Some (7 # 0 # replicate 30 0)"
    by (simp add: Let_def r)
  from ok ko show ?thesis
    by simp
qed

subsection \<open>Checking an eth1 block for genesis\<close>

lemma depositsWithProofs_closed:
  "depositsWithProofs env rootList index ds =
     (map (\<lambda>k. \<lparr>depositProof =
                   getSingleProof env
                     (rootList @ map (hashTreeRoot_DepositData env) (take (Suc k) ds))
                     (gindexOfProperty env (index + k)),
                 depositData = ds ! k\<rparr>) [0..<length ds],
      rootList @ map (hashTreeRoot_DepositData env) ds)"
proof (induction ds arbitrary: rootList index)
  case Nil
  then show ?case by simp
next
  case (Cons d ds)
  show ?case
    by (simp add: Cons.IH Let_def map_upt_Suc del: upt_Suc)
qed

lemma checkGenesis_candidate:
  "checkGenesis env eth1Block c =
     (case genesisCandidate env (eth1 c) eth1Block of
        (genesisState, rootList) \<Rightarrow>
          if \<not> isValidGenesisState env genesisState then (Inr None, c)
          else (case initializeBeaconChain env genesisState rootList c of
                  (Inl e, c') \<Rightarrow> (Inl e, c')
                | (Inr u, c') \<Rightarrow> (Inr (Some genesisState), c')))"
  by (simp add: checkGenesis_def genesisCandidate_def Let_def split: prod.splits)

lemma checkGenesis_of_candidate:
  assumes "genesisCandidate env (eth1 c) eth1Block = (genesisState, rootList)"
  shows "checkGenesis env eth1Block c =
          (if isValidGenesisState env genesisState
           then (case initializeBeaconChain env genesisState rootList c of
                   (Inl e, c') \<Rightarrow> (Inl e, c')
                 | (Inr u, c') \<Rightarrow> (Inr (Some genesisState), c'))
           else (Inr None, c))"
  by (simp add: checkGenesis_candidate assms)

text \<open>
  C4. For every eth1 block \<open>E\<close>, \<open>checkGenesis\<close> fetches the deposit datas of the
  blocks up to \<open>E.number\<close>, in order; the deposit-root list it builds holds the
  hash-tree-roots of these deposit datas, in order; the deposit at index \<open>i\<close> carries
  the deposit data \<open>i\<close> and the single proof, at the generalised index of leaf \<open>i\<close>,
  taken from the tree when it holds the leaves \<open>0\<close> to \<open>i\<close>; and the genesis state is
  \<open>initializeBeaconStateFromEth1\<close> of the bytes of \<open>E.hash\<close>, \<open>E.timestamp\<close> and these
  deposits. That state is tested by \<open>isValidGenesisState\<close> and, if valid, passed on
  to \<open>initializeBeaconChain\<close> with the deposit-root list.
\<close>

theorem checkGenesis_genesis_state:
  "let datas = map snd (filter (\<lambda>(n, d). n \<le> number E) (pastDeposits (eth1 c)));
       roots = map (hashTreeRoot_DepositData env) datas;
       deposits = map (\<lambda>i. \<lparr>depositProof =
                               getSingleProof env (take (Suc i) roots) (gindexOfProperty env i),
                             depositData = datas ! i\<rparr>) [0..<length datas];
       genesisState = initializeBeaconStateFromEth1 env (fromHexString env (hash E))
                        (timestamp E) deposits
   in genesisCandidate env (eth1 c) E = (genesisState, roots)
      \<and> checkGenesis env E c =
          (if isValidGenesisState env genesisState
           then (case initializeBeaconChain env genesisState roots c of
                   (Inl e, c') \<Rightarrow> (Inl e, c')
                 | (Inr u, c') \<Rightarrow> (Inr (Some genesisState), c'))
           else (Inr None, c))"
proof -
  have g: "genesisCandidate env (eth1 c) E =
     (initializeBeaconStateFromEth1 env (fromHexString env (hash E)) (timestamp E)
        (map (\<lambda>i. \<lparr>depositProof =
                 getSingleProof env
                   (take (Suc i) (map (hashTreeRoot_DepositData env)
                      (map snd (filter (\<lambda>(n, d). n \<le> number E) (pastDeposits (eth1 c))))))
                   (gindexOfProperty env i),
               depositData = map snd (filter (\<lambda>(n, d). n \<le> number E) (pastDeposits (eth1 c))) ! i\<rparr>)
           [0..<length (map snd (filter (\<lambda>(n, d). n \<le> number E) (pastDeposits (eth1 c))))]),
      map (hashTreeRoot_DepositData env)
        (map snd (filter (\<lambda>(n, d). n \<le> number E) (pastDeposits (eth1 c)))))"
    by (simp add: genesisCandidate_def processPastDeposits_def depositsWithProofs_closed
        take_map del: upt_Suc)
  show ?thesis
    unfolding Let_def by (rule conjI [OF g checkGenesis_of_candidate [OF g]])
qed

theorem checkGenesis_genesis_state_witness:
  "genesisCandidate example_imports example_eth1 (example_eth1_block 10)
     = (\<lparr>genesisTime = 110, genesisValidatorsRoot = [97, 97],
         fork = \<lparr>previousVersion = [0, 0, 0, 0], currentVersion = [0, 0, 0, 0], forkEpoch = 0\<rparr>,
         validators = [ [1], [2] ], eth1DepositIndex = 2\<rparr>,
        [33 # replicate 31 2, 34 # replicate 31 2])"
  using checkGenesis_genesis_state [where env = example_imports and c = example_chain
      and E = "example_eth1_block 10"]
  by (simp add: Let_def example_defs upt_rec)

lemmas run_defs = waitForState_def perform_def emit_def resume_def
  resumeCheck.simps sequential_def checkGenesis_def initializeBeaconChain_def
  processPastDeposits_def getBlockBySlot_def write_defs db_write_def addBlock_def getNode_def
  advance_def getEmptyBlock_def computeEpochAtSlot_def GENESIS_SLOT_def ZERO_HASH_def
  newListener_def removeEth1Listener_def removeListener_def on_block_def Let_def

subsection \<open>Checks in flight\<close>

lemma resumeCheck_deposits:
  assumes "genesisCandidate env (eth1 c) E = (gs, rl)"
  shows "resumeCheck env (AwaitDeposits E) c =
           (if isValidGenesisState env gs then (Suspended (AwaitStoredGenesis gs rl), c)
            else (Returned None, c))"
  using assms by (auto simp add: genesisCandidate_def Let_def split: prod.splits)

lemma resumeCheck_stored_mismatch:
  assumes "getBlockBySlot (db c) GENESIS_SLOT = Some stored"
    and "stateRoot (message stored) \<noteq> hashTreeRoot_BeaconState env gs"
  shows "resumeCheck env (AwaitStoredGenesis gs rl) c = (Rejected GenesisMismatch, c)"
  using assms by (auto simp add: Let_def)

lemma resumeCheck_stored_fits:
  assumes "\<forall>stored. getBlockBySlot (db c) GENESIS_SLOT = Some stored
             \<longrightarrow> stateRoot (message stored) = hashTreeRoot_BeaconState env gs"
  shows "resumeCheck env (AwaitStoredGenesis gs rl) c = (Suspended (AwaitWrites gs rl), c)"
  using assms by (auto simp add: Let_def split: option.splits)

lemma resumeCheck_writes:
  assumes "\<forall>stored. getBlockBySlot (db c) GENESIS_SLOT = Some stored
             \<longrightarrow> stateRoot (message stored) = hashTreeRoot_BeaconState env gs"
  shows "resumeCheck env (AwaitWrites gs rl) c =
           (case initializeBeaconChain env gs rl c of
              (Inl e, c') \<Rightarrow> (Rejected e, c')
            | (Inr u, c') \<Rightarrow> (Returned (Some gs), c'))"
  using assms
  by (auto simp add: initializeBeaconChain_def Let_def simp del: promise_all.simps
      split: option.splits prod.splits sum.splits)

declare resumeCheck.simps [simp del]

text \<open>
  A call of \<open>checkGenesis\<close> that is resumed with nothing else in between, until it
  returns or throws, does what \<open>checkGenesis\<close> does as a whole.
\<close>

lemma checkGenesis_resumed:
  "checkGenesis env E c =
     (case resumeCheck env (AwaitDeposits E) c of
        (Returned r, c1) \<Rightarrow> (Inr r, c1)
      | (Rejected e, c1) \<Rightarrow> (Inl e, c1)
      | (Suspended ch1, c1) \<Rightarrow>
          (case resumeCheck env ch1 c1 of
             (Returned r, c2) \<Rightarrow> (Inr r, c2)
           | (Rejected e, c2) \<Rightarrow> (Inl e, c2)
           | (Suspended ch2, c2) \<Rightarrow>
               (case resumeCheck env ch2 c2 of
                  (Returned r, c3) \<Rightarrow> (Inr r, c3)
                | (Rejected e, c3) \<Rightarrow> (Inl e, c3)
                | (Suspended ch3, c3) \<Rightarrow> (Inr None, c3))))"
proof -
  obtain gs rl where g: "genesisCandidate env (eth1 c) E = (gs, rl)"
    by (cases "genesisCandidate env (eth1 c) E")
  show ?thesis
  proof (cases "isValidGenesisState env gs")
    case False
    then show ?thesis
      by (simp add: checkGenesis_of_candidate [OF g] resumeCheck_deposits [OF g])
  next
    case True
    show ?thesis
    proof (cases "\<exists>stored. getBlockBySlot (db c) GENESIS_SLOT = Some stored
        \<and> stateRoot (message stored) \<noteq> hashTreeRoot_BeaconState env gs")
      case True
      then obtain stored where s: "getBlockBySlot (db c) GENESIS_SLOT = Some stored"
        "stateRoot (message stored) \<noteq> hashTreeRoot_BeaconState env gs"
        by blast
      from \<open>isValidGenesisState env gs\<close> show ?thesis
        by (simp add: checkGenesis_of_candidate [OF g] resumeCheck_deposits [OF g]
            resumeCheck_stored_mismatch [OF s]
            initializeBeaconChain_genesis_mismatch_aux [OF s])
    next
      case False
      then have fits: "\<forall>stored. getBlockBySlot (db c) GENESIS_SLOT = Some stored
             \<longrightarrow> stateRoot (message stored) = hashTreeRoot_BeaconState env gs"
        by blast
      from \<open>isValidGenesisState env gs\<close> show ?thesis
        by (simp add: checkGenesis_of_candidate [OF g] resumeCheck_deposits [OF g]
            resumeCheck_stored_fits [OF fits] resumeCheck_writes [OF fits]
            split: prod.splits sum.splits)
    qed
  qed
qed

lemma initializeBeaconChain_eth1:
  "eth1 (snd (initializeBeaconChain env S rl c)) = eth1 c
   \<and> eth1Listener (snd (initializeBeaconChain env S rl c)) = eth1Listener c
   \<and> priv_currentForkDigest (snd (initializeBeaconChain env S rl c)) = priv_currentForkDigest c"
  by (simp add: initializeBeaconChain_def Let_def del: promise_all.simps
      split: option.splits prod.splits sum.splits)

lemma checkGenesis_eth1:
  "eth1 (snd (checkGenesis env E c)) = eth1 c
   \<and> eth1Listener (snd (checkGenesis env E c)) = eth1Listener c
   \<and> priv_currentForkDigest (snd (checkGenesis env E c)) = priv_currentForkDigest c"
proof -
  obtain gs rl where g: "genesisCandidate env (eth1 c) E = (gs, rl)"
    by (cases "genesisCandidate env (eth1 c) E")
  obtain r c1 where i: "initializeBeaconChain env gs rl c = (r, c1)"
    by (cases "initializeBeaconChain env gs rl c")
  from initializeBeaconChain_eth1 [of env gs rl c] i
  have c1: "eth1 c1 = eth1 c" "eth1Listener c1 = eth1Listener c"
    "priv_currentForkDigest c1 = priv_currentForkDigest c"
    by simp_all
  show ?thesis
    by (simp add: checkGenesis_of_candidate [OF g] i c1 split: sum.splits)
qed

lemma resumeCheck_eth1:
  "eth1 (snd (resumeCheck env ch c)) = eth1 c
   \<and> eth1Listener (snd (resumeCheck env ch c)) = eth1Listener c
   \<and> priv_currentForkDigest (snd (resumeCheck env ch c)) = priv_currentForkDigest c"
  by (cases ch)
    (simp_all add: resumeCheck.simps Let_def del: promise_all.simps
      split: option.splits prod.splits sum.splits)

lemma perform_eth1:
  "eth1 (object (perform env mode a rt)) = eth1 (object rt)
   \<and> eth1Listener (object (perform env mode a rt)) = eth1Listener (object rt)
   \<and> priv_currentForkDigest (object (perform env mode a rt)) = priv_currentForkDigest (object rt)"
proof (cases a)
  case (Emit E)
  then show ?thesis
    by (simp add: perform_def emit_def split: option.splits)
next
  case (Resume k)
  obtain r c1 where r: "resumeCheck env (inflight rt ! k) (object rt) = (r, c1)"
    by (cases "resumeCheck env (inflight rt ! k) (object rt)")
  with resumeCheck_eth1 [of env "inflight rt ! k" "object rt"]
  have c1: "eth1 c1 = eth1 (object rt)" "eth1Listener c1 = eth1Listener (object rt)"
    "priv_currentForkDigest c1 = priv_currentForkDigest (object rt)"
    by simp_all
  show ?thesis
    by (simp add: Resume perform_def resume_def Let_def r c1 split: outcome.splits option.splits)
qed

lemma awaitGenesis_eth1:
  "eth1 (object (awaitGenesis env mode schedule rt)) = eth1 (object rt)
   \<and> eth1Listener (object (awaitGenesis env mode schedule rt)) = eth1Listener (object rt)
   \<and> priv_currentForkDigest (object (awaitGenesis env mode schedule rt))
       = priv_currentForkDigest (object rt)"
proof (induction schedule arbitrary: rt)
  case Nil
  then show ?case by simp
next
  case (Cons a schedule)
  show ?case
    using Cons.IH [of "perform env mode a rt"] perform_eth1 [of env mode a rt]
    by (simp split: option.splits)
qed

lemma fold_max_ge: "(a::nat) \<le> fold max xs a"
  by (induction xs arbitrary: a) (auto intro: order_trans [OF max.cobounded2])

lemma fold_max_mem: "(x::nat) \<in> set xs \<Longrightarrow> x \<le> fold max xs a"
proof (induction xs arbitrary: a)
  case Nil
  then show ?case by simp
next
  case (Cons y ys)
  then show ?case
    using fold_max_ge [of "max y a" ys] by auto
qed

lemma newListener_fresh:
  "newListener c \<notin> set (blockListeners (eth1 c))" "eth1Listener c \<noteq> Some (newListener c)"
proof -
  show "newListener c \<notin> set (blockListeners (eth1 c))"
  proof
    assume "newListener c \<in> set (blockListeners (eth1 c))"
    from fold_max_mem [OF this, of "case eth1Listener c of None \<Rightarrow> 0 | Some l \<Rightarrow> l"]
    show False
      by (simp add: newListener_def)
  qed
  show "eth1Listener c \<noteq> Some (newListener c)"
  proof
    assume a: "eth1Listener c = Some (newListener c)"
    have "(case eth1Listener c of None \<Rightarrow> 0 | Some l \<Rightarrow> l) = newListener c"
      by (simp only: a option.case)
    with newListener_def [of c]
    have "newListener c = Suc (fold max (blockListeners (eth1 c)) (newListener c))"
      by (simp only:)
    with fold_max_ge [of "newListener c" "blockListeners (eth1 c)"]
    show False
      by arith
  qed
qed




text \<open>
  One round of the sequential schedule, on an object that waits with its listener
  installed once and no check in flight.
\<close>

lemma round_invalid:
  assumes "inflight rt = []" "promise rt = None" "\<not> exited rt"
    and "eth1Listener (object rt) = Some l"
    and "count_list (blockListeners (eth1 (object rt))) l = 1"
    and "\<not> isValidGenesisState env (fst (genesisCandidate env (eth1 (object rt)) E))"
  shows "awaitGenesis env mode ([Emit E, Resume 0, Resume 0, Resume 0] @ later) rt
           = awaitGenesis env mode later rt"
proof -
  obtain gs rl where g: "genesisCandidate env (eth1 (object rt)) E = (gs, rl)"
    by (cases "genesisCandidate env (eth1 (object rt)) E")
  with assms(6) have inv: "\<not> isValidGenesisState env gs"
    by simp
  have 1: "perform env mode (Emit E) rt = rt\<lparr>inflight := [AwaitDeposits E]\<rparr>"
    using assms by (simp add: perform_def emit_def)
  have 2: "perform env mode (Resume 0) (rt\<lparr>inflight := [AwaitDeposits E]\<rparr>) = rt"
    using assms inv by (simp add: perform_def resume_def resumeCheck_deposits [OF g] Let_def)
  have 3: "perform env mode (Resume 0) rt = rt"
    using assms by (simp add: perform_def resume_def)
  show ?thesis
    using assms(2) by (simp add: 1 2 3)
qed








subsection \<open>An eth1 block that does not form a valid genesis state\<close>

text \<open>
  C5. For every eth1 block whose computed genesis state fails \<open>isValidGenesisState\<close>,
  \<open>checkGenesis\<close> returns \<open>null\<close> and leaves the whole object as it was: nothing is
  written to the store or the fork choice, and the listeners of the eth1 follower are
  the same. It returns at its first resumption, before \<open>initializeBeaconChain\<close> is
  called. The promise of \<open>waitForState\<close> stays pending and the wait goes on, on the
  same object: when the check is resumed while others are in flight, and when the block
  is delivered and checked with no other check in flight.
\<close>

theorem checkGenesis_invalid:
  assumes "\<not> isValidGenesisState env (fst (genesisCandidate env (eth1 c) E))"
  shows "checkGenesis env E c = (Inr None, c)
         \<and> db (snd (checkGenesis env E c)) = db c
         \<and> forkChoice (snd (checkGenesis env E c)) = forkChoice c
         \<and> blockListeners (eth1 (snd (checkGenesis env E c))) = blockListeners (eth1 c)
         \<and> resumeCheck env (AwaitDeposits E) c = (Returned None, c)
         \<and> (\<forall>rt k. object rt = c \<and> k < length (inflight rt) \<and> inflight rt ! k = AwaitDeposits E
                \<and> promise rt = None \<and> \<not> exited rt
              \<longrightarrow> awaitGenesis env mode (Resume k # later) rt
                    = awaitGenesis env mode later
                        (rt\<lparr>inflight := take k (inflight rt) @ drop (Suc k) (inflight rt)\<rparr>))
         \<and> (\<forall>rt l. object rt = c \<and> inflight rt = [] \<and> promise rt = None \<and> \<not> exited rt
                \<and> eth1Listener c = Some l \<and> count_list (blockListeners (eth1 c)) l = 1
              \<longrightarrow> awaitGenesis env mode (sequential [E] @ later) rt
                    = awaitGenesis env mode later rt)"
proof -
  obtain gs rl where g: "genesisCandidate env (eth1 c) E = (gs, rl)"
    by (cases "genesisCandidate env (eth1 c) E")
  with assms have inv: "\<not> isValidGenesisState env gs"
    by simp
  have a: "checkGenesis env E c = (Inr None, c)"
    using inv by (simp add: checkGenesis_of_candidate [OF g])
  have b: "resumeCheck env (AwaitDeposits E) c = (Returned None, c)"
    using inv by (simp add: resumeCheck_deposits [OF g])
  have r: "awaitGenesis env mode (Resume k # later) rt
      = awaitGenesis env mode later
          (rt\<lparr>inflight := take k (inflight rt) @ drop (Suc k) (inflight rt)\<rparr>)"
    if "object rt = c" "k < length (inflight rt)" "inflight rt ! k = AwaitDeposits E"
      "promise rt = None" "\<not> exited rt" for rt k
    using that b by (cases rt) (simp add: perform_def resume_def Let_def)
  have s: "awaitGenesis env mode (sequential [E] @ later) rt = awaitGenesis env mode later rt"
    if "object rt = c" "inflight rt = []" "promise rt = None" "\<not> exited rt"
      "eth1Listener c = Some l" "count_list (blockListeners (eth1 c)) l = 1" for rt l
    using round_invalid [of rt l env E mode later] that assms
    by (simp add: sequential_def)
  show ?thesis
    using a b r s by simp
qed

theorem checkGenesis_invalid_witness:
  "\<not> isValidGenesisState example_imports
       (fst (genesisCandidate example_imports (eth1 example_chain) (example_eth1_block 6)))
   \<and> checkGenesis example_imports (example_eth1_block 6) example_chain = (Inr None, example_chain)"
proof -
  have a: "\<not> isValidGenesisState example_imports
       (fst (genesisCandidate example_imports (eth1 example_chain) (example_eth1_block 6)))"
    by (simp add: genesisCandidate_def processPastDeposits_def Let_def example_defs)
  from checkGenesis_invalid [OF a] a show ?thesis
    by simp
qed

subsection \<open>The fork digest of the head state\<close>

text \<open>
  C9. \<open>getCurrentForkDigest\<close> reads the state that the store holds under
  \<open>forkChoice.headStateRoot()\<close>. When the store holds none, \<open>getHeadState\<close> yields
  \<open>null\<close> and \<open>getCurrentForkDigest\<close> fails with a \<open>TypeError\<close>; when it holds one,
  the digest of its current fork version and genesis validators root is returned. So
  does \<open>start\<close>, which calls it last: if \<open>waitForState\<close> has returned a state and the
  head state is missing from the store, \<open>start\<close> fails with the \<open>TypeError\<close>.
\<close>

theorem getCurrentForkDigest_needs_head_state:
  "getHeadState env c = state (db c) (headStateRoot env (forkChoice c))
   \<and> (getHeadState env c = None \<longrightarrow> getCurrentForkDigest env c = Inl TypeError)
   \<and> (\<forall>s. getHeadState env c = Some s \<longrightarrow>
          getCurrentForkDigest env c =
            Inr (computeForkDigest env (currentVersion (fork s)) (genesisValidatorsRoot s)))
   \<and> (\<forall>st c1. waitForState env mode schedule c = (Some (Some st), c1)
          \<and> state (db c1) (headStateRoot env (forkChoice_start (genesisTime st) (forkChoice c1))) = None
          \<longrightarrow> fst (start env mode schedule c) = Some (Inl TypeError))"
  by (auto simp add: getHeadState_def getCurrentForkDigest_def start_def Let_def)

theorem getCurrentForkDigest_needs_head_state_witness:
  "getHeadState example_imports example_chain = None
   \<and> getCurrentForkDigest example_imports example_chain = Inl TypeError
   \<and> getHeadState example_imports
         (snd (initializeBeaconChain example_imports (example_state 110) [] example_chain))
       = Some (example_state 110)
   \<and> getCurrentForkDigest example_imports
         (snd (initializeBeaconChain example_imports (example_state 110) [] example_chain))
       = Inr [0, 0, 0, 0]"
proof -
  have a: "getHeadState example_imports example_chain = None"
    by (simp add: getHeadState_def example_defs)
  have b: "getHeadState example_imports
         (snd (initializeBeaconChain example_imports (example_state 110) [] example_chain))
       = Some (example_state 110)"
    by (simp add: getHeadState_def initializeBeaconChain_def Let_def example_defs
        getBlockBySlot_def write_defs db_write_def addBlock_def ZERO_HASH_def)
  have c: "computeForkDigest example_imports (currentVersion (fork (example_state 110)))
             (genesisValidatorsRoot (example_state 110)) = [0, 0, 0, 0]"
    by (simp add: example_defs)
  from getCurrentForkDigest_needs_head_state [of example_imports example_chain Warn "[]"]
    getCurrentForkDigest_needs_head_state [of example_imports
      "snd (initializeBeaconChain example_imports (example_state 110) [] example_chain)" Warn "[]"]
    a b c
  show ?thesis
    by simp
qed

subsection \<open>Waiting for a state\<close>

text \<open>
  C10. \<open>waitForState\<close> goes into the fallback exactly when \<open>db.state.getLatest\<close>
  throws. When it returns, the value it returns, \<open>null\<close> included, is what
  \<open>waitForState\<close> returns, whatever happens on the eth1 side; no listener is created and
  none is added to the eth1 follower. When it throws, a new listener is assigned to
  \<open>eth1Listener\<close> and added to the eth1 follower, and the outcome is that of the
  promise that waits for genesis.
\<close>

theorem waitForState_fallback_iff_throws:
  "(\<forall>s. getLatest env (db c) = Inr s \<longrightarrow>
       waitForState env mode schedule c = (Some s, removeEth1Listener c)
       \<and> eth1Listener (snd (waitForState env mode schedule c)) = eth1Listener c
       \<and> set (blockListeners (eth1 (snd (waitForState env mode schedule c))))
           \<subseteq> set (blockListeners (eth1 c)))
   \<and> (\<forall>err. getLatest env (db c) = Inl err \<longrightarrow>
       waitForState env mode schedule c =
         (case promise (awaitGenesis env mode schedule
                 \<lparr>object = c\<lparr>eth1Listener := Some (newListener c),
                              eth1 := on_block (newListener c) (eth1 c)\<rparr>,
                  inflight = [], promise = None, exited = False, unhandled = []\<rparr>) of
            None \<Rightarrow>
              (None, object (awaitGenesis env mode schedule
                 \<lparr>object = c\<lparr>eth1Listener := Some (newListener c),
                              eth1 := on_block (newListener c) (eth1 c)\<rparr>,
                  inflight = [], promise = None, exited = False, unhandled = []\<rparr>))
          | Some s \<Rightarrow>
              (Some (Some s), removeEth1Listener (object (awaitGenesis env mode schedule
                 \<lparr>object = c\<lparr>eth1Listener := Some (newListener c),
                              eth1 := on_block (newListener c) (eth1 c)\<rparr>,
                  inflight = [], promise = None, exited = False, unhandled = []\<rparr>)))))
   \<and> ((\<exists>err. getLatest env (db c) = Inl err)
        \<longleftrightarrow> eth1Listener (snd (waitForState env mode schedule c)) = Some (newListener c))"
proof -
  let ?l = "newListener c"
  let ?rt = "awaitGenesis env mode schedule
                 \<lparr>object = c\<lparr>eth1Listener := Some ?l, eth1 := on_block ?l (eth1 c)\<rparr>,
                  inflight = [], promise = None, exited = False, unhandled = []\<rparr>"
  have rm: "eth1Listener (removeEth1Listener x) = eth1Listener x" for x
    by (simp add: removeEth1Listener_def split: option.splits)
  have sub: "set (blockListeners (eth1 (removeEth1Listener x))) \<subseteq> set (blockListeners (eth1 x))" for x
    using set_remove1_subset [of _ "rev (blockListeners (eth1 x))"]
    by (auto simp add: removeEth1Listener_def removeListener_def split: option.splits)
  have normal: "waitForState env mode schedule c = (Some s, removeEth1Listener c)"
    if "getLatest env (db c) = Inr s" for s
    using that by (simp add: waitForState_def)
  have fallback: "waitForState env mode schedule c =
         (case promise ?rt of
            None \<Rightarrow> (None, object ?rt)
          | Some s \<Rightarrow> (Some (Some s), removeEth1Listener (object ?rt)))"
    if "getLatest env (db c) = Inl err" for err
    using that by (simp add: waitForState_def Let_def)
  have kept: "eth1Listener (object ?rt) = Some ?l"
    using awaitGenesis_eth1 [of env mode schedule
        "\<lparr>object = c\<lparr>eth1Listener := Some ?l, eth1 := on_block ?l (eth1 c)\<rparr>,
          inflight = [], promise = None, exited = False, unhandled = []\<rparr>"]
    by simp
  have installed: "eth1Listener (snd (waitForState env mode schedule c)) = Some ?l"
    if "getLatest env (db c) = Inl err" for err
    by (simp add: fallback [OF that] rm kept split: option.splits)
  have notinstalled: "eth1Listener (snd (waitForState env mode schedule c)) \<noteq> Some ?l"
    if "getLatest env (db c) = Inr s" for s
    using newListener_fresh(2) [of c] by (simp add: normal [OF that] rm)
  have iff: "(\<exists>err. getLatest env (db c) = Inl err)
        \<longleftrightarrow> eth1Listener (snd (waitForState env mode schedule c)) = Some ?l"
    using installed notinstalled by (cases "getLatest env (db c)") auto
  show ?thesis
    using normal fallback iff rm sub by (simp add: rm)
qed

theorem waitForState_fallback_iff_throws_witness:
  "waitForState (example_imports\<lparr>getLatest := (\<lambda>d. Inr None)\<rparr>) Warn
       [Emit (example_eth1_block 10)] example_chain
     = (Some None, example_chain)
   \<and> eth1Listener (snd (waitForState example_imports Warn [] example_chain)) = Some 1"
proof -
  have a: "getLatest (example_imports\<lparr>getLatest := (\<lambda>d. Inr None)\<rparr>) (db example_chain) = Inr None"
    by simp
  have b: "\<exists>err. getLatest example_imports (db example_chain) = Inl err"
    by (simp add: example_imports_def)
  have c: "removeEth1Listener example_chain = example_chain" "newListener example_chain = 1"
    by (simp_all add: removeEth1Listener_def newListener_def example_defs)
  from waitForState_fallback_iff_throws [of "example_imports\<lparr>getLatest := (\<lambda>d. Inr None)\<rparr>"
      example_chain Warn "[Emit (example_eth1_block 10)]"]
    waitForState_fallback_iff_throws [of example_imports example_chain Warn "[]"] a b c
  show ?thesis
    by simp
qed




subsection \<open>Which eth1 block becomes genesis\<close>




subsection \<open>The cached fork digest\<close>

text \<open>
  C6, as stated, fails: \<open>start\<close> completes on the example object with the eth1 block 10
  and caches the digest of the genesis fork version; then a block whose post-state is
  under another fork version becomes the head. The head state now has the digest
  \<open>[1, 0, 0, 0]\<close>, and \<open>currentForkDigest\<close> still is \<open>[0, 0, 0, 0]\<close>.
\<close>

theorem currentForkDigest_stale_after_head_change:
  "fst (start example_imports Throw (sequential [example_eth1_block 10]) example_chain)
     = Some (Inr ())
   \<and> getHeadState example_imports
         (example_head_change
           (snd (start example_imports Throw (sequential [example_eth1_block 10]) example_chain)))
       = Some example_next_state
   \<and> computeForkDigest example_imports (currentVersion (fork example_next_state))
         (genesisValidatorsRoot example_next_state) = [1, 0, 0, 0]
   \<and> currentForkDigest
         (example_head_change
           (snd (start example_imports Throw (sequential [example_eth1_block 10]) example_chain)))
       = Some [0, 0, 0, 0]"
  by (simp add: start_def getCurrentForkDigest_def getHeadState_def currentForkDigest_def
      forkChoice_start_def initBlockCache_def run_defs example_defs example_next_state_def
      example_head_change_def)

text \<open>
  C6, amended. When \<open>start\<close> completes, \<open>currentForkDigest\<close> is the fork digest of the
  current fork version and the genesis validators root of the head state at that
  moment: it is computed and cached as the last step of \<open>start\<close>. Nothing recomputes
  it afterwards: \<open>currentForkDigest\<close> returns the cached value whatever the store and
  the fork choice become, and \<open>initializeBeaconChain\<close> and \<open>checkGenesis\<close> leave it as
  it is.
\<close>

theorem start_caches_fork_digest:
  assumes "start env mode schedule c = (Some (Inr u), c')"
  shows "(\<exists>s. getHeadState env c' = Some s
            \<and> currentForkDigest c' =
                Some (computeForkDigest env (currentVersion (fork s)) (genesisValidatorsRoot s)))
         \<and> (\<forall>d fc. currentForkDigest (c'\<lparr>db := d, forkChoice := fc\<rparr>) = currentForkDigest c')
         \<and> (\<forall>S rl. currentForkDigest (snd (initializeBeaconChain env S rl c')) = currentForkDigest c')
         \<and> (\<forall>E. currentForkDigest (snd (checkGenesis env E c')) = currentForkDigest c')"
proof -
  from assms obtain st c5 digest where
    d: "getCurrentForkDigest env c5 = Inr digest"
    and c': "c' = c5\<lparr>priv_currentForkDigest := Some digest\<rparr>"
    by (auto simp add: start_def Let_def split: prod.splits option.splits sum.splits)
  from d obtain s where "getHeadState env c5 = Some s"
    and "digest = computeForkDigest env (currentVersion (fork s)) (genesisValidatorsRoot s)"
    by (auto simp add: getCurrentForkDigest_def split: option.splits)
  then have "getHeadState env c' = Some s
      \<and> currentForkDigest c' =
          Some (computeForkDigest env (currentVersion (fork s)) (genesisValidatorsRoot s))"
    by (simp add: c' getHeadState_def currentForkDigest_def)
  then show ?thesis
    using initializeBeaconChain_eth1 [of env _ _ c'] checkGenesis_eth1 [of env _ c']
    by (auto simp add: currentForkDigest_def)
qed

theorem start_caches_fork_digest_witness:
  "fst (start example_imports Throw (sequential [example_eth1_block 10]) example_chain)
     = Some (Inr ())
   \<and> currentForkDigest
         (snd (start example_imports Throw (sequential [example_eth1_block 10]) example_chain))
       = Some [0, 0, 0, 0]"
proof -
  have f: "fst (start example_imports Throw (sequential [example_eth1_block 10]) example_chain)
      = Some (Inr ())"
    by (simp add: start_def getCurrentForkDigest_def getHeadState_def
        forkChoice_start_def initBlockCache_def run_defs example_defs)
  then have e: "start example_imports Throw (sequential [example_eth1_block 10]) example_chain
      = (Some (Inr ()),
         snd (start example_imports Throw (sequential [example_eth1_block 10]) example_chain))"
    by (simp add: prod_eq_iff)
  have h: "getHeadState example_imports
      (snd (start example_imports Throw (sequential [example_eth1_block 10]) example_chain))
      = Some (fst (genesisCandidate example_imports example_eth1 (example_eth1_block 10)))"
    by (simp add: start_def getCurrentForkDigest_def getHeadState_def genesisCandidate_def
        forkChoice_start_def initBlockCache_def run_defs example_defs)
  have g: "computeForkDigest example_imports
      (currentVersion (fork (fst (genesisCandidate example_imports example_eth1 (example_eth1_block 10)))))
      (genesisValidatorsRoot (fst (genesisCandidate example_imports example_eth1 (example_eth1_block 10))))
      = [0, 0, 0, 0]"
    by (simp add: genesisCandidate_def processPastDeposits_def Let_def example_defs)
  from start_caches_fork_digest [OF e] f h g show ?thesis
    by auto
qed

end
